theory Spec2Isabelle
  imports Main
begin

section \<open>The runner of the replicator: data model\<close>

text \<open>
  This theory embeds \<^verbatim>\<open>replicator/runner.go\<close>: the cluster-scaling pass
  (\<^verbatim>\<open>clusterScaling\<close>), its helper \<^verbatim>\<open>disableClusterScaling\<close>, the job-scaling pass
  (\<^verbatim>\<open>jobScaling\<close>) and the ticker loop of \<^verbatim>\<open>Start\<close>.

  The runner talks to collaborators (the Nomad and Consul clients, the AWS client, the
  metrics sink, the clock). Their answers are the input of the model: a record holds, for
  every call site, the answer the collaborator gives there. The calls themselves are the
  observable behaviour: every function returns, besides the new configuration and
  scaling state, the list of calls it made, in the order of the source, each with its
  arguments and its answer. Log lines are not modelled.
\<close>

subsection \<open>Values of the collaborating packages\<close>

text \<open>A Go \<^verbatim>\<open>error\<close> value; \<^verbatim>\<open>nil\<close> is \<open>None\<close> of \<open>error option\<close>.\<close>

datatype error = Error string

text \<open>
  A \<^verbatim>\<open>time.Duration\<close> is a 64-bit signed count of nanoseconds, and its arithmetic wraps
  around. Durations are integers here, and \<open>int64 x\<close> is the value that a 64-bit signed
  integer holds when the exact result of an operation is \<open>x\<close>.
\<close>

definition int64 :: "int \<Rightarrow> int" where
  "int64 x = (x + 9223372036854775808) mod 18446744073709551616 - 9223372036854775808"

definition Second :: int where
  "Second = 1000000000"

text \<open>
  A \<^verbatim>\<open>time.Time\<close>, counted in nanoseconds from the zero instant, so that
  \<^verbatim>\<open>IsZero\<close> is equality with 0, \<^verbatim>\<open>Add\<close> is addition and \<^verbatim>\<open>Before\<close> is \<open><\<close>. The range of
  \<^verbatim>\<open>time.Time\<close> (64-bit seconds) is wider than that of a duration by a factor of
  \<open>10\<^sup>9\<close>, so that adding a duration to a reading of the clock does not leave it.
\<close>

type_synonym time = int

definition IsZero :: "time \<Rightarrow> bool" where
  "IsZero t = (t = 0)"

definition Add :: "time \<Rightarrow> int \<Rightarrow> time" where
  "Add t d = t + d"

definition Before :: "time \<Rightarrow> time \<Rightarrow> bool" where
  "Before t u = (t < u)"

text \<open>
  Modelled from the spec: the constants \<^verbatim>\<open>client.ScalingDirectionOut\<close>,
  \<^verbatim>\<open>client.ScalingDirectionIn\<close> and the remaining direction are declared in package
  \<^verbatim>\<open>client\<close>, which is not among the sources; the spec gives a direction as one of
  Out, In, None.
\<close>

datatype ScalingDirection = ScalingDirectionOut | ScalingDirectionIn | ScalingDirectionNone

text \<open>The session that \<^verbatim>\<open>client.NewAWSAsgService(region)\<close> returns.\<close>

datatype AsgSession = AsgSession string

subsection \<open>Configuration and scaling state\<close>

text \<open>
  Modelled from the spec: the structs \<^verbatim>\<open>Config\<close>, \<^verbatim>\<open>ScalingState\<close>,
  \<^verbatim>\<open>ClusterCapacity\<close> and the job scaling policies are declared in package
  \<^verbatim>\<open>structs\<close>, which is not among the sources. The records below hold the fields
  that the runner reads or writes, under the names the runner uses. Counters and
  thresholds are mathematical integers. The runner raises \<^verbatim>\<open>NodeFailureCount\<close> by one
  at a time, from 0 and only while it is at most \<^verbatim>\<open>RetryThreshold\<close>, so the counter
  never exceeds \<^verbatim>\<open>RetryThreshold + 1\<close> and a machine integer behaves like this one
  unless \<^verbatim>\<open>RetryThreshold\<close> is the largest value of its type. \<^verbatim>\<open>CoolDown\<close> and
  \<^verbatim>\<open>ScalingInterval\<close> hold the values of the conversions \<^verbatim>\<open>time.Duration(CoolDown)\<close> and
  \<^verbatim>\<open>time.Duration(ScalingInterval)\<close>; the products with \<^verbatim>\<open>time.Second\<close> that the runner
  forms of them are durations and wrap around. The client handles of
  \<^verbatim>\<open>Config\<close> are represented by the answers of the collaborators, which are taken
  not to write to the configuration they are handed.
\<close>

record ClusterScaling =
  Enabled :: bool
  CoolDown :: int
  AutoscalingGroup :: string
  RetryThreshold :: int

record JobScaling =
  Enabled :: bool

record Config =
  ScalingInterval :: int
  Region :: string
  ClusterScaling :: ClusterScaling
  JobScaling :: JobScaling

record ScalingState =
  LastScalingEvent :: time
  NodeFailureCount :: int

record Scaling =
  ScaleDirection :: ScalingDirection

record GroupScalingPolicy =
  GroupName :: string
  Scaling :: Scaling

record JobScalingPolicy =
  JobName :: string
  Enabled :: bool
  GroupScalingPolicies :: "GroupScalingPolicy list"

subsection \<open>Calls to the collaborators\<close>

text \<open>
  One constructor for each call the runner makes, with the arguments the runner passes
  and, last, the answer it receives. \<open>Done\<close> is the send \<^verbatim>\<open>done <- true\<close> on the
  channel on which \<^verbatim>\<open>Start\<close> waits for the pass.
\<close>

datatype call =
    LeaderCheck bool
  | DescribeAWSRegion "error + string"
  | EvaluateClusterCapacity ScalingDirection bool "error option"
  | NewAWSAsgService string
  | ScaleOutCluster string AsgSession "error option"
  | GetMostRecentInstance string string "error + string"
  | VerifyNodeHealth string bool
  | IncrCounter "string list" int
  | TranslateIptoID string string string
  | DetachInstance string string AsgSession "error option"
  | TerminateInstance string string "error option"
  | LeastAllocatedNode "string \<times> string"
  | DrainNode string "error option"
  | ScaleInCluster string string AsgSession "error option"
  | Done
  | GetJobScalingPolicies "error + JobScalingPolicy list"
  | EvaluateJobScaling "JobScalingPolicy list"
  | JobScale JobScalingPolicy

text \<open>
  The answers of the collaborators in one iteration of the retry loop of the scale-out
  branch: \<^verbatim>\<open>client.GetMostRecentInstance\<close>, \<^verbatim>\<open>nomadClient.VerifyNodeHealth\<close>,
  \<^verbatim>\<open>time.Now()\<close> on the healthy path, \<^verbatim>\<open>client.TranslateIptoID\<close>,
  \<^verbatim>\<open>client.DetachInstance\<close> and \<^verbatim>\<open>client.TerminateInstance\<close>.
\<close>

record attempt =
  getMostRecentInstance :: "error + string"
  verifyNodeHealth :: bool
  timeNowHealthy :: time
  translateIptoID :: string
  detachInstance :: "error option"
  terminateInstance :: "error option"

text \<open>
  The answers of the collaborators in one cluster-scaling pass. \<open>attempts i\<close> holds the
  answers in iteration \<open>i\<close> of the retry loop, counted from 0. \<open>timeNowCooldown\<close> is
  the reading of the clock in the cooldown check, \<open>timeNowScaleIn\<close> the one after a
  scale-in.
\<close>

record cluster_env =
  leaderCheck :: bool
  describeAWSRegion :: "error + string"
  capacityDirection :: ScalingDirection
  capacityScale :: bool
  capacityErr :: "error option"
  timeNowCooldown :: time
  scaleOutCluster :: "error option"
  attempts :: "nat \<Rightarrow> attempt"
  leastAllocatedNode :: "string \<times> string"
  drainNode :: "error option"
  scaleInCluster :: "error option"
  timeNowScaleIn :: time

text \<open>
  The answers of the collaborators in one job-scaling pass. \<open>evaluateJobScaling\<close> gives
  the policies as \<^verbatim>\<open>nomadClient.EvaluateJobScaling\<close> leaves them, since it works in
  place on the policies it is handed.
\<close>

record job_env =
  jobLeaderCheck :: bool
  getJobScalingPolicies :: "error + JobScalingPolicy list"
  evaluateJobScaling :: "JobScalingPolicy list \<Rightarrow> JobScalingPolicy list"

section \<open>The cluster-scaling pass\<close>

text \<open>
  A block of the pass either executes \<^verbatim>\<open>return\<close> (after \<^verbatim>\<open>done <- true\<close>) or runs to
  its end, and then the pass goes on with the statement that follows the block.
\<close>

datatype flow = Returned | FellThrough

type_synonym outcome = "Config \<times> ScalingState \<times> call list \<times> flow"

text \<open>\<open>emit cs r\<close>: the calls \<open>cs\<close> are made, and then what \<open>r\<close> describes happens.\<close>

fun emit :: "call list \<Rightarrow> outcome \<Rightarrow> outcome" where
  "emit cs (c, s, tr, fl) = (c, s, cs @ tr, fl)"

text \<open>\<^verbatim>\<open>disableClusterScaling\<close>: the result \<^verbatim>\<open>disabled\<close> and the configuration it leaves.\<close>

definition disableClusterScaling :: "Config \<Rightarrow> ScalingState \<Rightarrow> bool \<times> Config" where
  "disableClusterScaling c scalingState =
     (if NodeFailureCount scalingState = RetryThreshold (ClusterScaling c)
      then (True, c\<lparr>ClusterScaling := (ClusterScaling c)\<lparr>ClusterScaling.Enabled := False\<rparr>\<rparr>)
      else (False, c))"

text \<open>
  The loop \<^verbatim>\<open>for scalingState.NodeFailureCount <= r.config.ClusterScaling.RetryThreshold\<close>,
  from its iteration \<open>i\<close> on.
\<close>

function retryLoop :: "cluster_env \<Rightarrow> AsgSession \<Rightarrow> nat \<Rightarrow> Config \<Rightarrow> ScalingState \<Rightarrow> outcome" where
  "retryLoop env asgSess i c scalingState =
     (if NodeFailureCount scalingState \<le> RetryThreshold (ClusterScaling c) then
        (let a = attempts env i in
         case getMostRecentInstance a of
           Inl err \<Rightarrow>
             emit [GetMostRecentInstance (AutoscalingGroup (ClusterScaling c)) (Region c) (Inl err)]
               (retryLoop env asgSess (Suc i) c
                  (scalingState\<lparr>NodeFailureCount := NodeFailureCount scalingState + 1\<rparr>))
         | Inr newestNode \<Rightarrow>
             emit [GetMostRecentInstance (AutoscalingGroup (ClusterScaling c)) (Region c) (Inr newestNode),
                   VerifyNodeHealth newestNode (verifyNodeHealth a)]
               (if verifyNodeHealth a then
                  (c, scalingState\<lparr>NodeFailureCount := 0, LastScalingEvent := timeNowHealthy a\<rparr>,
                   [Done], Returned)
                else
                  (let scalingState' = scalingState\<lparr>NodeFailureCount := NodeFailureCount scalingState + 1\<rparr>;
                       instanceID = translateIptoID a;
                       disabled = fst (disableClusterScaling c scalingState');
                       c' = snd (disableClusterScaling c scalingState')
                   in emit [IncrCounter [''cluster'', ''scale_out_failed''] 1,
                            TranslateIptoID newestNode (Region c) instanceID]
                        (if disabled then
                           (c', scalingState',
                            [DetachInstance (AutoscalingGroup (ClusterScaling c')) instanceID asgSess
                               (detachInstance a),
                             Done], Returned)
                         else
                           emit [TerminateInstance instanceID (Region c') (terminateInstance a)]
                             (retryLoop env asgSess (Suc i) c' scalingState')))))
      else (c, scalingState, [], FellThrough))"
  by pat_completeness auto
termination
  by (relation "measure (\<lambda>(env, asgSess, i, c, scalingState).
        nat (RetryThreshold (ClusterScaling c) + 1 - NodeFailureCount scalingState))")
     (auto simp: disableClusterScaling_def)

declare retryLoop.simps [simp del]

text \<open>
  Sequencing of two blocks: the second runs only when the first has not returned.
\<close>

fun andThen :: "outcome \<Rightarrow> (Config \<Rightarrow> ScalingState \<Rightarrow> outcome) \<Rightarrow> outcome" where
  "andThen (c, s, tr, Returned) f = (c, s, tr, Returned)"
| "andThen (c, s, tr, FellThrough) f = emit tr (f c s)"

text \<open>
  Lines 78 to 84: when no region is configured, \<^verbatim>\<open>client.DescribeAWSRegion\<close> is asked,
  and its answer is stored unless it is an error.
\<close>

definition resolveRegion :: "cluster_env \<Rightarrow> Config \<Rightarrow> Config \<times> call list" where
  "resolveRegion env c =
     (if Region c = [] then
        (case describeAWSRegion env of
           Inr region \<Rightarrow> (c\<lparr>Region := region\<rparr>, [DescribeAWSRegion (Inr region)])
         | Inl err \<Rightarrow> (c, [DescribeAWSRegion (Inl err)]))
      else (c, []))"

text \<open>
  Lines 96 to 115, the cooldown check: true when the pass stops because the cooldown
  threshold has not been reached. The duration added to \<^verbatim>\<open>LastScalingEvent\<close> is the
  product \<^verbatim>\<open>time.Duration(CoolDown) * time.Second\<close>, formed in 64 bits.
\<close>

definition coolingDown :: "cluster_env \<Rightarrow> Config \<Rightarrow> ScalingState \<Rightarrow> bool" where
  "coolingDown env c scalingState =
     (if \<not> IsZero (LastScalingEvent scalingState) then
        (let cooldown = Add (LastScalingEvent scalingState)
                          (int64 (CoolDown (ClusterScaling c) * Second))
         in Before (timeNowCooldown env) cooldown)
      else False)"

text \<open>Lines 117 to 213, the body of the scale-out branch.\<close>

definition scaleOutBranch ::
  "cluster_env \<Rightarrow> AsgSession \<Rightarrow> bool \<Rightarrow> Config \<Rightarrow> ScalingState \<Rightarrow> outcome" where
  "scaleOutBranch env asgSess scalingEnabled c scalingState =
     (if \<not> scalingEnabled then (c, scalingState, [Done], Returned)
      else
        emit [ScaleOutCluster (AutoscalingGroup (ClusterScaling c)) asgSess (scaleOutCluster env)]
          (case scaleOutCluster env of
             Some err \<Rightarrow> (c, scalingState, [Done], Returned)
           | None \<Rightarrow> retryLoop env asgSess 0 c scalingState))"

text \<open>Lines 215 to 237, the body of the scale-in branch.\<close>

definition scaleInBranch ::
  "cluster_env \<Rightarrow> AsgSession \<Rightarrow> bool \<Rightarrow> Config \<Rightarrow> ScalingState \<Rightarrow> outcome" where
  "scaleInBranch env asgSess scalingEnabled c scalingState =
     (let nodeID = fst (leastAllocatedNode env); nodeIP = snd (leastAllocatedNode env) in
      emit [LeastAllocatedNode (nodeID, nodeIP)]
        (if nodeIP \<noteq> [] \<and> nodeID \<noteq> [] then
           (if \<not> scalingEnabled then (c, scalingState, [Done], Returned)
            else
              emit [DrainNode nodeID (drainNode env)]
                (case drainNode env of
                   None \<Rightarrow>
                     emit [ScaleInCluster (AutoscalingGroup (ClusterScaling c)) nodeIP asgSess
                             (scaleInCluster env)]
                       (case scaleInCluster env of
                          Some err \<Rightarrow> (c, scalingState, [], FellThrough)
                        | None \<Rightarrow>
                            (c, scalingState\<lparr>LastScalingEvent := timeNowScaleIn env\<rparr>, [],
                             FellThrough))
                 | Some err \<Rightarrow> (c, scalingState, [], FellThrough)))
         else (c, scalingState, [], FellThrough)))"

text \<open>
  \<^verbatim>\<open>clusterScaling\<close> up to line 238. \<open>scalingEnabled\<close> is read once, before the
  leadership check, as in the source.
\<close>

definition clusterScalingBody :: "cluster_env \<Rightarrow> Config \<Rightarrow> ScalingState \<Rightarrow> outcome" where
  "clusterScalingBody env c0 scalingState =
     (let scalingEnabled = ClusterScaling.Enabled (ClusterScaling c0) in
      emit [LeaderCheck (leaderCheck env)]
        (if \<not> leaderCheck env then (c0, scalingState, [Done], Returned)
         else
           (let c = fst (resolveRegion env c0) in
            emit (snd (resolveRegion env c0) @
                  [EvaluateClusterCapacity (capacityDirection env) (capacityScale env) (capacityErr env)])
              (if capacityErr env \<noteq> None \<or> \<not> capacityScale env then
                 (c, scalingState, [], FellThrough)
               else
                 (let asgSess = AsgSession (Region c) in
                  emit [NewAWSAsgService (Region c)]
                    (if coolingDown env c scalingState then (c, scalingState, [Done], Returned)
                     else
                       andThen
                         (if capacityDirection env = ScalingDirectionOut
                          then scaleOutBranch env asgSess scalingEnabled c scalingState
                          else (c, scalingState, [], FellThrough))
                         (\<lambda>c scalingState.
                            if capacityDirection env = ScalingDirectionIn
                            then scaleInBranch env asgSess scalingEnabled c scalingState
                            else (c, scalingState, [], FellThrough))))))))"

text \<open>
  \<^verbatim>\<open>clusterScaling\<close>: a pass that has not returned earlier reaches lines 239 to 241.
  The result is the configuration and the scaling state the pass leaves, and the calls
  it made.
\<close>

definition clusterScaling ::
  "cluster_env \<Rightarrow> Config \<Rightarrow> ScalingState \<Rightarrow> Config \<times> ScalingState \<times> call list" where
  "clusterScaling env c scalingState =
     (case clusterScalingBody env c scalingState of
        (c', scalingState', tr, Returned) \<Rightarrow> (c', scalingState', tr)
      | (c', scalingState', tr, FellThrough) \<Rightarrow>
          (c', scalingState', tr @ [Done, IncrCounter [''cluster'', ''scale_out_success''] 1]))"

section \<open>The job-scaling pass\<close>

text \<open>
  The inner loop over \<^verbatim>\<open>job.GroupScalingPolicies\<close>: the value of the counter \<^verbatim>\<open>i\<close>
  after the loop, from its value before.
\<close>

fun countGroups :: "Config \<Rightarrow> JobScalingPolicy \<Rightarrow> GroupScalingPolicy list \<Rightarrow> int \<Rightarrow> int" where
  "countGroups c job [] i = i"
| "countGroups c job (grp # grps) i =
     countGroups c job grps
       (if ScaleDirection (Scaling grp) = ScalingDirectionOut \<or>
           ScaleDirection (Scaling grp) = ScalingDirectionIn
        then (if JobScalingPolicy.Enabled job \<and> JobScaling.Enabled (JobScaling c) then i + 1 else i)
        else i)"

text \<open>The outer loop \<^verbatim>\<open>for _, job := range resp\<close>: the calls it makes.\<close>

fun jobsLoop :: "Config \<Rightarrow> JobScalingPolicy list \<Rightarrow> call list" where
  "jobsLoop c [] = []"
| "jobsLoop c (job # resp) =
     (if countGroups c job (GroupScalingPolicies job) 0 > 0 then [JobScale job] else []) @
     jobsLoop c resp"

definition jobScaling :: "job_env \<Rightarrow> Config \<Rightarrow> Config \<times> call list" where
  "jobScaling env c =
     (c, LeaderCheck (jobLeaderCheck env) #
         (if \<not> jobLeaderCheck env then []
          else
            GetJobScalingPolicies (getJobScalingPolicies env) #
            (case getJobScalingPolicies env of
               Inl err \<Rightarrow> []
             | Inr resp \<Rightarrow>
                 (let resp' = evaluateJobScaling env resp in
                  EvaluateJobScaling resp' # jobsLoop c resp'))))"

section \<open>The ticker loop\<close>

text \<open>
  \<^verbatim>\<open>Start\<close> first creates the ticker, for the duration
  \<^verbatim>\<open>time.Second * time.Duration(ScalingInterval)\<close>; \<^verbatim>\<open>time.NewTicker\<close> panics when that
  duration is not positive. It then creates the scaling state once, with the zero values
  of its fields, and on every tick runs a cluster-scaling pass, waits for its
  \<^verbatim>\<open>done <- true\<close>, and runs a job-scaling pass. \<open>ticks\<close> is the loop for the ticks that
  arrive before the runner is stopped, each with the answers of the collaborators in its
  two passes. The result keeps, for every tick, the calls of the cluster-scaling pass and
  the calls of the job-scaling pass apart: the pass runs in a goroutine of its own and
  emits its success counter after the completion signal, when the job-scaling pass may
  already run, so that no order between that counter and the calls of the job-scaling
  pass is fixed.
\<close>

datatype panic = NonPositiveTickerInterval

type_synonym run = "Config \<times> ScalingState \<times> (call list \<times> call list) list"

fun ticks :: "(cluster_env \<times> job_env) list \<Rightarrow> Config \<Rightarrow> ScalingState \<Rightarrow> run" where
  "ticks [] c scalingState = (c, scalingState, [])"
| "ticks ((cenv, jenv) # rest) c scalingState =
     (case clusterScaling cenv c scalingState of
        (c1, scalingState1, tr1) \<Rightarrow>
          (case jobScaling jenv c1 of
             (c2, tr2) \<Rightarrow>
               (case ticks rest c2 scalingState1 of
                  (c3, scalingState3, trs) \<Rightarrow> (c3, scalingState3, (tr1, tr2) # trs))))"

definition Start :: "Config \<Rightarrow> (cluster_env \<times> job_env) list \<Rightarrow> panic + run" where
  "Start c envs =
     (if int64 (Second * ScalingInterval c) \<le> 0 then Inl NonPositiveTickerInterval
      else Inr (ticks envs c \<lparr>LastScalingEvent = 0, NodeFailureCount = 0\<rparr>))"

section \<open>Reading results and calls\<close>

text \<open>The four parts of what a block leaves.\<close>

fun configOf :: "outcome \<Rightarrow> Config" where
  "configOf (c, s, tr, fl) = c"

fun stateOf :: "outcome \<Rightarrow> ScalingState" where
  "stateOf (c, s, tr, fl) = s"

fun callsOf :: "outcome \<Rightarrow> call list" where
  "callsOf (c, s, tr, fl) = tr"

fun flowOf :: "outcome \<Rightarrow> flow" where
  "flowOf (c, s, tr, fl) = fl"

text \<open>The three parts of what a cluster-scaling pass leaves.\<close>

fun passConfig :: "Config \<times> ScalingState \<times> call list \<Rightarrow> Config" where
  "passConfig (c, s, tr) = c"

fun passState :: "Config \<times> ScalingState \<times> call list \<Rightarrow> ScalingState" where
  "passState (c, s, tr) = s"

fun passCalls :: "Config \<times> ScalingState \<times> call list \<Rightarrow> call list" where
  "passCalls (c, s, tr) = tr"

text \<open>The two writes of the retry loop.\<close>

definition bumped :: "ScalingState \<Rightarrow> ScalingState" where
  "bumped s = s\<lparr>NodeFailureCount := NodeFailureCount s + 1\<rparr>"

definition disabledConfig :: "Config \<Rightarrow> Config" where
  "disabledConfig c = c\<lparr>ClusterScaling := (ClusterScaling c)\<lparr>ClusterScaling.Enabled := False\<rparr>\<rparr>"

text \<open>
  Kinds of calls. An instance attempt of the retry loop shows as a
  \<^verbatim>\<open>GetMostRecentInstance\<close> call (the identification) and, when that succeeds, a
  \<^verbatim>\<open>VerifyNodeHealth\<close> call (the health verification).
\<close>

fun isIdentification :: "call \<Rightarrow> bool" where
  "isIdentification (GetMostRecentInstance asg region r) = True"
| "isIdentification _ = False"

fun isVerification :: "call \<Rightarrow> bool" where
  "isVerification (VerifyNodeHealth node healthy) = True"
| "isVerification _ = False"

fun isHealthyVerification :: "call \<Rightarrow> bool" where
  "isHealthyVerification (VerifyNodeHealth node healthy) = healthy"
| "isHealthyVerification _ = False"

fun isFailedAttempt :: "call \<Rightarrow> bool" where
  "isFailedAttempt (GetMostRecentInstance asg region (Inl err)) = True"
| "isFailedAttempt (VerifyNodeHealth node healthy) = (\<not> healthy)"
| "isFailedAttempt _ = False"

fun isDetach :: "call \<Rightarrow> bool" where
  "isDetach (DetachInstance asg instanceID sess r) = True"
| "isDetach _ = False"

fun isTerminate :: "call \<Rightarrow> bool" where
  "isTerminate (TerminateInstance instanceID region r) = True"
| "isTerminate _ = False"

fun isScaleIn :: "call \<Rightarrow> bool" where
  "isScaleIn (ScaleInCluster asg nodeIP sess r) = True"
| "isScaleIn _ = False"

fun isFailedDrain :: "call \<Rightarrow> bool" where
  "isFailedDrain (DrainNode nodeID (Some err)) = True"
| "isFailedDrain _ = False"

fun isDrain :: "call \<Rightarrow> bool" where
  "isDrain (DrainNode nodeID r) = True"
| "isDrain _ = False"

fun isJobScale :: "call \<Rightarrow> bool" where
  "isJobScale (JobScale job) = True"
| "isJobScale _ = False"

fun isSuccessCounter :: "call \<Rightarrow> bool" where
  "isSuccessCounter (IncrCounter name n) = (name = [''cluster'', ''scale_out_success''])"
| "isSuccessCounter _ = False"

text \<open>
  The calls that change something at a collaborator: the autoscaling group, an
  instance, a node, a job. The remaining calls are queries, the construction of the
  client session, the counters of the metrics sink and the completion signal.
\<close>

fun mutating :: "call \<Rightarrow> bool" where
  "mutating (ScaleOutCluster asg sess r) = True"
| "mutating (DetachInstance asg instanceID sess r) = True"
| "mutating (TerminateInstance instanceID region r) = True"
| "mutating (DrainNode nodeID r) = True"
| "mutating (ScaleInCluster asg nodeIP sess r) = True"
| "mutating (JobScale job) = True"
| "mutating _ = False"

text \<open>
  What holds of the configuration and the scaling state between the passes of a run:
  the counter is 0, or cluster scaling has been disabled, or the counter has gone past
  the threshold.
\<close>

definition betweenPasses :: "Config \<Rightarrow> ScalingState \<Rightarrow> bool" where
  "betweenPasses c s =
     (NodeFailureCount s = 0 \<or> \<not> ClusterScaling.Enabled (ClusterScaling c) \<or>
      RetryThreshold (ClusterScaling c) < NodeFailureCount s)"

text \<open>
  The job-scaling pass in the words of the specification: a group needs scaling when its
  direction is out or in, and a job is submitted when it has such a group while the
  job's own flag and the global job-scaling flag are both true.
\<close>

definition needsScaling :: "GroupScalingPolicy \<Rightarrow> bool" where
  "needsScaling grp =
     (ScaleDirection (Scaling grp) = ScalingDirectionOut \<or>
      ScaleDirection (Scaling grp) = ScalingDirectionIn)"

definition eligibleJob :: "Config \<Rightarrow> JobScalingPolicy \<Rightarrow> bool" where
  "eligibleJob c job =
     (JobScalingPolicy.Enabled job \<and> JobScaling.Enabled (JobScaling c) \<and>
      (\<exists>grp\<in>set (GroupScalingPolicies job). needsScaling grp))"

section \<open>Concrete inputs\<close>

definition exampleConfig :: "int \<Rightarrow> Config" where
  "exampleConfig threshold =
     \<lparr>ScalingInterval = 10, Region = ''us-east-1'',
      ClusterScaling = \<lparr>ClusterScaling.Enabled = True, CoolDown = 300,
                         AutoscalingGroup = ''workers'', RetryThreshold = threshold\<rparr>,
      JobScaling = \<lparr>JobScaling.Enabled = True\<rparr>\<rparr>"

definition freshState :: ScalingState where
  "freshState = \<lparr>LastScalingEvent = 0, NodeFailureCount = 0\<rparr>"

definition unhealthyAttempt :: attempt where
  "unhealthyAttempt =
     \<lparr>getMostRecentInstance = Inr ''10.0.0.1'', verifyNodeHealth = False, timeNowHealthy = 7000,
      translateIptoID = ''i-0abc'', detachInstance = Some (Error ''detach failed''),
      terminateInstance = None\<rparr>"

definition unidentifiedAttempt :: attempt where
  "unidentifiedAttempt = unhealthyAttempt\<lparr>getMostRecentInstance := Inl (Error ''throttled'')\<rparr>"

definition healthyAttempt :: attempt where
  "healthyAttempt = unhealthyAttempt\<lparr>verifyNodeHealth := True\<rparr>"

definition allHealthy :: "nat \<Rightarrow> attempt" where
  "allHealthy i = healthyAttempt"

definition allUnhealthy :: "nat \<Rightarrow> attempt" where
  "allUnhealthy i = unhealthyAttempt"

definition allUnidentified :: "nat \<Rightarrow> attempt" where
  "allUnidentified i = unidentifiedAttempt"

definition unidentifiedThenUnhealthy :: "nat \<Rightarrow> attempt" where
  "unidentifiedThenUnhealthy i = (if i = 0 then unidentifiedAttempt else unhealthyAttempt)"

definition unhealthyThenHealthy :: "nat \<Rightarrow> attempt" where
  "unhealthyThenHealthy i = (if i = 0 then unhealthyAttempt else healthyAttempt)"

definition scaleOutEnv :: "(nat \<Rightarrow> attempt) \<Rightarrow> cluster_env" where
  "scaleOutEnv as =
     \<lparr>leaderCheck = True, describeAWSRegion = Inr ''eu-west-1'',
      capacityDirection = ScalingDirectionOut, capacityScale = True, capacityErr = None,
      timeNowCooldown = 5000, scaleOutCluster = None, attempts = as,
      leastAllocatedNode = (''node-7'', ''10.0.0.7''), drainNode = None, scaleInCluster = None,
      timeNowScaleIn = 9000\<rparr>"

definition scaleInEnv :: cluster_env where
  "scaleInEnv = (scaleOutEnv allUnhealthy)\<lparr>capacityDirection := ScalingDirectionIn\<rparr>"

definition notLeaderEnv :: cluster_env where
  "notLeaderEnv = (scaleOutEnv allUnhealthy)\<lparr>leaderCheck := False\<rparr>"

definition idleEnv :: cluster_env where
  "idleEnv = (scaleOutEnv allUnhealthy)\<lparr>capacityScale := False\<rparr>"

definition failedDrainEnv :: cluster_env where
  "failedDrainEnv = scaleInEnv\<lparr>drainNode := Some (Error ''drain failed'')\<rparr>"


definition longCooldownConfig :: Config where
  "longCooldownConfig =
     (exampleConfig 2)\<lparr>ClusterScaling := (ClusterScaling (exampleConfig 2))\<lparr>CoolDown := 9223372037\<rparr>\<rparr>"

definition scaledBefore :: ScalingState where
  "scaledBefore = \<lparr>LastScalingEvent = 1000, NodeFailureCount = 0\<rparr>"

definition oneFailure :: ScalingState where
  "oneFailure = \<lparr>LastScalingEvent = 0, NodeFailureCount = 1\<rparr>"

definition notLeaderJobEnv :: job_env where
  "notLeaderJobEnv =
     \<lparr>jobLeaderCheck = False, getJobScalingPolicies = Inr [], evaluateJobScaling = (\<lambda>resp. resp)\<rparr>"

definition webJob :: JobScalingPolicy where
  "webJob =
     \<lparr>JobName = ''web'', JobScalingPolicy.Enabled = True,
      GroupScalingPolicies =
        [\<lparr>GroupName = ''frontend'', Scaling = \<lparr>ScaleDirection = ScalingDirectionOut\<rparr>\<rparr>,
         \<lparr>GroupName = ''cache'', Scaling = \<lparr>ScaleDirection = ScalingDirectionNone\<rparr>\<rparr>]\<rparr>"

definition batchJob :: JobScalingPolicy where
  "batchJob =
     \<lparr>JobName = ''batch'', JobScalingPolicy.Enabled = False,
      GroupScalingPolicies =
        [\<lparr>GroupName = ''workers'', Scaling = \<lparr>ScaleDirection = ScalingDirectionIn\<rparr>\<rparr>]\<rparr>"

definition quietJob :: JobScalingPolicy where
  "quietJob =
     \<lparr>JobName = ''quiet'', JobScalingPolicy.Enabled = True,
      GroupScalingPolicies =
        [\<lparr>GroupName = ''api'', Scaling = \<lparr>ScaleDirection = ScalingDirectionNone\<rparr>\<rparr>]\<rparr>"

definition jobEnv :: job_env where
  "jobEnv =
     \<lparr>jobLeaderCheck = True, getJobScalingPolicies = Inr [webJob, batchJob, quietJob],
      evaluateJobScaling = (\<lambda>resp. resp)\<rparr>"

definition failingTick :: "cluster_env \<times> job_env" where
  "failingTick = (scaleOutEnv allUnidentified, notLeaderJobEnv)"

section \<open>The retry loop, case by case\<close>

lemma emit_proj [simp]:
  "configOf (emit cs r) = configOf r"
  "stateOf (emit cs r) = stateOf r"
  "callsOf (emit cs r) = cs @ callsOf r"
  "flowOf (emit cs r) = flowOf r"
  by (cases r; simp)+

lemma emit_emit [simp]: "emit cs (emit ds r) = emit (cs @ ds) r"
  by (cases r) simp

lemma retryLoop_exit:
  "\<not> NodeFailureCount s \<le> RetryThreshold (ClusterScaling c) \<Longrightarrow>
   retryLoop env sess i c s = (c, s, [], FellThrough)"
  by (subst retryLoop.simps) simp

lemma retryLoop_unidentified:
  "NodeFailureCount s \<le> RetryThreshold (ClusterScaling c) \<Longrightarrow>
   getMostRecentInstance (attempts env i) = Inl err \<Longrightarrow>
   retryLoop env sess i c s =
     emit [GetMostRecentInstance (AutoscalingGroup (ClusterScaling c)) (Region c) (Inl err)]
       (retryLoop env sess (Suc i) c (bumped s))"
  by (subst retryLoop.simps) (simp add: bumped_def)

lemma retryLoop_healthy:
  "NodeFailureCount s \<le> RetryThreshold (ClusterScaling c) \<Longrightarrow>
   getMostRecentInstance (attempts env i) = Inr node \<Longrightarrow>
   verifyNodeHealth (attempts env i) \<Longrightarrow>
   retryLoop env sess i c s =
     (c, s\<lparr>NodeFailureCount := 0, LastScalingEvent := timeNowHealthy (attempts env i)\<rparr>,
      [GetMostRecentInstance (AutoscalingGroup (ClusterScaling c)) (Region c) (Inr node),
       VerifyNodeHealth node True, Done], Returned)"
  by (subst retryLoop.simps) simp

lemma retryLoop_selfDisable:
  "NodeFailureCount s \<le> RetryThreshold (ClusterScaling c) \<Longrightarrow>
   getMostRecentInstance (attempts env i) = Inr node \<Longrightarrow>
   \<not> verifyNodeHealth (attempts env i) \<Longrightarrow>
   NodeFailureCount s + 1 = RetryThreshold (ClusterScaling c) \<Longrightarrow>
   retryLoop env sess i c s =
     (disabledConfig c, bumped s,
      [GetMostRecentInstance (AutoscalingGroup (ClusterScaling c)) (Region c) (Inr node),
       VerifyNodeHealth node False,
       IncrCounter [''cluster'', ''scale_out_failed''] 1,
       TranslateIptoID node (Region c) (translateIptoID (attempts env i)),
       DetachInstance (AutoscalingGroup (ClusterScaling c)) (translateIptoID (attempts env i)) sess
         (detachInstance (attempts env i)),
       Done], Returned)"
  by (subst retryLoop.simps)
     (simp add: Let_def disableClusterScaling_def bumped_def disabledConfig_def)

lemma retryLoop_terminate:
  "NodeFailureCount s \<le> RetryThreshold (ClusterScaling c) \<Longrightarrow>
   getMostRecentInstance (attempts env i) = Inr node \<Longrightarrow>
   \<not> verifyNodeHealth (attempts env i) \<Longrightarrow>
   NodeFailureCount s + 1 \<noteq> RetryThreshold (ClusterScaling c) \<Longrightarrow>
   retryLoop env sess i c s =
     emit [GetMostRecentInstance (AutoscalingGroup (ClusterScaling c)) (Region c) (Inr node),
           VerifyNodeHealth node False,
           IncrCounter [''cluster'', ''scale_out_failed''] 1,
           TranslateIptoID node (Region c) (translateIptoID (attempts env i)),
           TerminateInstance (translateIptoID (attempts env i)) (Region c)
             (terminateInstance (attempts env i))]
       (retryLoop env sess (Suc i) c (bumped s))"
  by (subst retryLoop.simps) (simp add: Let_def disableClusterScaling_def bumped_def)

lemmas retryLoop_unfold =
  retryLoop_exit retryLoop_unidentified retryLoop_healthy retryLoop_selfDisable
  retryLoop_terminate

text \<open>
  Induction along the loop: the configuration stays as it is in every iteration that
  goes on to the next one, and the distance of the counter from the threshold shrinks.
\<close>

lemma retryLoop_cases [case_names exit unidentified healthy selfDisable terminate]:
  assumes "\<And>i s. \<not> NodeFailureCount s \<le> RetryThreshold (ClusterScaling c) \<Longrightarrow> P i s"
    and "\<And>i s err. NodeFailureCount s \<le> RetryThreshold (ClusterScaling c) \<Longrightarrow>
           getMostRecentInstance (attempts env i) = Inl err \<Longrightarrow> P (Suc i) (bumped s) \<Longrightarrow> P i s"
    and "\<And>i s node. NodeFailureCount s \<le> RetryThreshold (ClusterScaling c) \<Longrightarrow>
           getMostRecentInstance (attempts env i) = Inr node \<Longrightarrow>
           verifyNodeHealth (attempts env i) \<Longrightarrow> P i s"
    and "\<And>i s node. NodeFailureCount s \<le> RetryThreshold (ClusterScaling c) \<Longrightarrow>
           getMostRecentInstance (attempts env i) = Inr node \<Longrightarrow>
           \<not> verifyNodeHealth (attempts env i) \<Longrightarrow>
           NodeFailureCount s + 1 = RetryThreshold (ClusterScaling c) \<Longrightarrow> P i s"
    and "\<And>i s node. NodeFailureCount s \<le> RetryThreshold (ClusterScaling c) \<Longrightarrow>
           getMostRecentInstance (attempts env i) = Inr node \<Longrightarrow>
           \<not> verifyNodeHealth (attempts env i) \<Longrightarrow>
           NodeFailureCount s + 1 \<noteq> RetryThreshold (ClusterScaling c) \<Longrightarrow>
           P (Suc i) (bumped s) \<Longrightarrow> P i s"
  shows "P i s"
proof (induction "nat (RetryThreshold (ClusterScaling c) + 1 - NodeFailureCount s)"
    arbitrary: i s rule: less_induct)
  case less
  show ?case
  proof (cases "NodeFailureCount s \<le> RetryThreshold (ClusterScaling c)")
    case False
    then show ?thesis by (rule assms(1))
  next
    case inLoop: True
    have IH: "P (Suc i) (bumped s)"
      by (rule less) (use inLoop in \<open>simp add: bumped_def\<close>)
    show ?thesis
    proof (cases "getMostRecentInstance (attempts env i)")
      case (Inl err)
      show ?thesis by (rule assms(2) [OF inLoop Inl IH])
    next
      case (Inr node)
      show ?thesis
      proof (cases "verifyNodeHealth (attempts env i)")
        case True
        show ?thesis by (rule assms(3) [OF inLoop Inr True])
      next
        case unhealthy: False
        show ?thesis
        proof (cases "NodeFailureCount s + 1 = RetryThreshold (ClusterScaling c)")
          case True
          show ?thesis by (rule assms(4) [OF inLoop Inr unhealthy True])
        next
          case False
          show ?thesis by (rule assms(5) [OF inLoop Inr unhealthy False IH])
        qed
      qed
    qed
  qed
qed


lemma retryLoop_count:
  "NodeFailureCount (stateOf (retryLoop env sess i c s)) =
     (if \<exists>e\<in>set (callsOf (retryLoop env sess i c s)). isHealthyVerification e then 0
      else NodeFailureCount s +
           int (length (filter isFailedAttempt (callsOf (retryLoop env sess i c s)))))"
  by (induction i s rule: retryLoop_cases [of c _ env])
     (simp_all add: retryLoop_unfold bumped_def)

lemma retryLoop_healthy_returns:
  "(\<exists>e\<in>set (callsOf (retryLoop env sess i c s)). isHealthyVerification e) \<longrightarrow>
   flowOf (retryLoop env sess i c s) = Returned"
  by (induction i s rule: retryLoop_cases [of c _ env]) (simp_all add: retryLoop_unfold)

lemma retryLoop_calls_out:
  "\<forall>e\<in>set (callsOf (retryLoop env sess i c s)).
     \<not> isScaleIn e \<and> \<not> isFailedDrain e \<and> \<not> isSuccessCounter e \<and> \<not> isDrain e"
  by (induction i s rule: retryLoop_cases [of c _ env]) (simp_all add: retryLoop_unfold)

section \<open>The pass, block by block\<close>

lemma clusterScaling_alt:
  "clusterScaling env c s =
     (configOf (clusterScalingBody env c s), stateOf (clusterScalingBody env c s),
      callsOf (clusterScalingBody env c s) @
        (if flowOf (clusterScalingBody env c s) = FellThrough
         then [Done, IncrCounter [''cluster'', ''scale_out_success''] 1] else []))"
  unfolding clusterScaling_def
  by (cases "clusterScalingBody env c s"; cases "flowOf (clusterScalingBody env c s)") auto

lemma andThen_proj:
  "configOf (andThen r f) =
     (if flowOf r = Returned then configOf r else configOf (f (configOf r) (stateOf r)))"
  "stateOf (andThen r f) =
     (if flowOf r = Returned then stateOf r else stateOf (f (configOf r) (stateOf r)))"
  "callsOf (andThen r f) =
     (if flowOf r = Returned then callsOf r
      else callsOf r @ callsOf (f (configOf r) (stateOf r)))"
  "flowOf (andThen r f) =
     (if flowOf r = Returned then Returned else flowOf (f (configOf r) (stateOf r)))"
  by (cases r; cases "flowOf r"; simp)+

lemma andThen_emit: "andThen (emit cs r) f = emit cs (andThen r f)"
  by (cases r; cases "flowOf r") auto

lemma body_eq:
  "clusterScalingBody env c s =
     (if \<not> leaderCheck env then (c, s, [LeaderCheck False, Done], Returned)
      else emit (LeaderCheck True # snd (resolveRegion env c) @
                 [EvaluateClusterCapacity (capacityDirection env) (capacityScale env) (capacityErr env)])
        (if capacityErr env \<noteq> None \<or> \<not> capacityScale env
         then (fst (resolveRegion env c), s, [], FellThrough)
         else emit [NewAWSAsgService (Region (fst (resolveRegion env c)))]
           (if coolingDown env c s then (fst (resolveRegion env c), s, [Done], Returned)
            else if capacityDirection env = ScalingDirectionOut
            then scaleOutBranch env (AsgSession (Region (fst (resolveRegion env c))))
                   (ClusterScaling.Enabled (ClusterScaling c)) (fst (resolveRegion env c)) s
            else if capacityDirection env = ScalingDirectionIn
            then scaleInBranch env (AsgSession (Region (fst (resolveRegion env c))))
                   (ClusterScaling.Enabled (ClusterScaling c)) (fst (resolveRegion env c)) s
            else (fst (resolveRegion env c), s, [], FellThrough))))"
  by (cases "scaleOutBranch env (AsgSession (Region (fst (resolveRegion env c))))
                   (ClusterScaling.Enabled (ClusterScaling c)) (fst (resolveRegion env c)) s";
      cases "flowOf (scaleOutBranch env (AsgSession (Region (fst (resolveRegion env c))))
                   (ClusterScaling.Enabled (ClusterScaling c)) (fst (resolveRegion env c)) s)")
     (simp_all add: clusterScalingBody_def Let_def coolingDown_def resolveRegion_def
       split: sum.splits)

lemma resolveRegion_calls [simp]:
  "filter isHealthyVerification (snd (resolveRegion env c)) = []"
  "filter isFailedAttempt (snd (resolveRegion env c)) = []"
  "filter isIdentification (snd (resolveRegion env c)) = []"
  "filter isVerification (snd (resolveRegion env c)) = []"
  "filter isTerminate (snd (resolveRegion env c)) = []"
  "filter isDetach (snd (resolveRegion env c)) = []"
  "filter isSuccessCounter (snd (resolveRegion env c)) = []"
  "filter isDrain (snd (resolveRegion env c)) = []"
  by (simp_all add: resolveRegion_def split: sum.splits)

lemmas pass_defs = clusterScaling_alt clusterScalingBody_def scaleOutBranch_def
  scaleInBranch_def resolveRegion_def Let_def andThen_proj


lemma body_calls_other:
  "capacityDirection env \<noteq> ScalingDirectionIn \<Longrightarrow>
   \<forall>e\<in>set (callsOf (clusterScalingBody env c s)). \<not> isScaleIn e \<and> \<not> isFailedDrain e"
  using retryLoop_calls_out [of env "AsgSession (Region (fst (resolveRegion env c)))" 0
      "fst (resolveRegion env c)" s]
  by (auto simp: clusterScalingBody_def scaleOutBranch_def resolveRegion_def Let_def
      andThen_proj split: sum.splits option.splits)

lemma body_scaleIn:
  "capacityDirection env = ScalingDirectionIn \<Longrightarrow>
   clusterScalingBody env c s =
     emit [LeaderCheck (leaderCheck env)]
       (if \<not> leaderCheck env then (c, s, [Done], Returned)
        else emit (snd (resolveRegion env c) @
                   [EvaluateClusterCapacity ScalingDirectionIn (capacityScale env) (capacityErr env)])
          (if capacityErr env \<noteq> None \<or> \<not> capacityScale env
           then (fst (resolveRegion env c), s, [], FellThrough)
           else emit [NewAWSAsgService (Region (fst (resolveRegion env c)))]
             (if coolingDown env (fst (resolveRegion env c)) s
              then (fst (resolveRegion env c), s, [Done], Returned)
              else scaleInBranch env (AsgSession (Region (fst (resolveRegion env c))))
                     (ClusterScaling.Enabled (ClusterScaling c)) (fst (resolveRegion env c)) s)))"
  by (simp add: clusterScalingBody_def Let_def)

lemma scaleIn_after_drain:
  "passCalls (clusterScaling env c s) = pre @ e # post \<Longrightarrow> isScaleIn e \<Longrightarrow>
   pre \<noteq> [] \<and> last pre = DrainNode (fst (leastAllocatedNode env)) None"
proof (cases "capacityDirection env = ScalingDirectionIn")
  case False
  assume "passCalls (clusterScaling env c s) = pre @ e # post" and "isScaleIn e"
  then have "e \<in> set (passCalls (clusterScaling env c s))" by simp
  with body_calls_other [OF False, of c s] \<open>isScaleIn e\<close> show ?thesis
    by (auto simp: clusterScaling_alt split: if_splits)
next
  case True
  assume "passCalls (clusterScaling env c s) = pre @ e # post" and "isScaleIn e"
  then show ?thesis
    by (auto simp: clusterScaling_alt body_scaleIn [OF True] scaleInBranch_def
        resolveRegion_def Let_def append_eq_Cons_conv Cons_eq_append_conv
        split: if_splits sum.splits option.splits)
qed

lemma event_after_scaleIn:
  "capacityDirection env = ScalingDirectionIn \<Longrightarrow>
   LastScalingEvent (passState (clusterScaling env c s)) \<noteq> LastScalingEvent s \<Longrightarrow>
   \<exists>sess. ScaleInCluster (AutoscalingGroup (ClusterScaling c)) (snd (leastAllocatedNode env))
            sess None \<in> set (passCalls (clusterScaling env c s))"
  by (auto simp: clusterScaling_alt body_scaleIn scaleInBranch_def resolveRegion_def Let_def
      split: if_splits sum.splits option.splits)

lemma failed_drain_stops:
  "\<exists>e\<in>set (passCalls (clusterScaling env c s)). isFailedDrain e \<Longrightarrow>
   (\<forall>e\<in>set (passCalls (clusterScaling env c s)). \<not> isScaleIn e \<and> \<not> isTerminate e) \<and>
   LastScalingEvent (passState (clusterScaling env c s)) = LastScalingEvent s"
proof (cases "capacityDirection env = ScalingDirectionIn")
  case False
  assume "\<exists>e\<in>set (passCalls (clusterScaling env c s)). isFailedDrain e"
  with body_calls_other [OF False, of c s] show ?thesis
    by (auto simp: clusterScaling_alt split: if_splits)
next
  case True
  assume "\<exists>e\<in>set (passCalls (clusterScaling env c s)). isFailedDrain e"
  then show ?thesis
    by (auto simp: clusterScaling_alt body_scaleIn [OF True] scaleInBranch_def
        resolveRegion_def Let_def split: if_splits sum.splits option.splits)
qed

lemma retryLoop_disabled_ends:
  "configOf (retryLoop env sess i c s) \<noteq> c \<longrightarrow>
     flowOf (retryLoop env sess i c s) = Returned \<and>
     (\<exists>pre instanceID r. callsOf (retryLoop env sess i c s) =
        pre @ [DetachInstance (AutoscalingGroup (ClusterScaling c)) instanceID sess r, Done])"
proof (induction i s rule: retryLoop_cases [of c _ env])
  case (exit i s)
  then show ?case by (simp add: retryLoop_exit)
next
  case (unidentified i s err)
  then show ?case by (auto simp: retryLoop_unidentified intro: Cons_eq_appendI)
next
  case (healthy i s node)
  then show ?case by (simp add: retryLoop_healthy)
next
  case (selfDisable i s node)
  show ?case by (simp add: retryLoop_selfDisable [OF selfDisable])
next
  case (terminate i s node)
  then show ?case by (auto simp: retryLoop_terminate)
qed

lemma pass_disabled_ends:
  "ClusterScaling.Enabled (ClusterScaling c) \<Longrightarrow>
   \<not> ClusterScaling.Enabled (ClusterScaling (passConfig (clusterScaling env c s))) \<Longrightarrow>
   \<exists>pre asg instanceID sess r. passCalls (clusterScaling env c s) =
        pre @ [DetachInstance asg instanceID sess r, Done]"
  using retryLoop_disabled_ends [of env "AsgSession (Region (fst (resolveRegion env c)))" 0
      "fst (resolveRegion env c)" s]
  by (auto simp: pass_defs split: sum.splits option.splits if_splits)

lemma coolingDown_region [simp]:
  "coolingDown env (fst (resolveRegion env c)) s = coolingDown env c s"
  by (simp add: coolingDown_def resolveRegion_def split: sum.splits)

lemma retryLoop_returned_done:
  "flowOf (retryLoop env sess i c s) = Returned \<longrightarrow>
   callsOf (retryLoop env sess i c s) \<noteq> [] \<and> last (callsOf (retryLoop env sess i c s)) = Done"
  by (induction i s rule: retryLoop_cases [of c _ env]) (simp_all add: retryLoop_unfold)

lemma body_no_success:
  "filter isSuccessCounter (callsOf (clusterScalingBody env c s)) = []"
  using retryLoop_calls_out [of env "AsgSession (Region (fst (resolveRegion env c)))" 0
      "fst (resolveRegion env c)" s]
  by (auto simp: clusterScalingBody_def scaleOutBranch_def scaleInBranch_def resolveRegion_def
      Let_def andThen_proj filter_empty_conv split: sum.splits option.splits)

lemma scaleOutBranch_healthy_returns:
  "filter isHealthyVerification (callsOf (scaleOutBranch env sess en c s)) \<noteq> [] \<longrightarrow>
   flowOf (scaleOutBranch env sess en c s) = Returned"
  using retryLoop_healthy_returns [of env sess 0 c s]
  by (simp add: scaleOutBranch_def filter_empty_conv split: option.splits)

lemma scaleInBranch_no_attempt:
  "filter isHealthyVerification (callsOf (scaleInBranch env sess en c s)) = [] \<and>
   filter isFailedAttempt (callsOf (scaleInBranch env sess en c s)) = [] \<and>
   filter isIdentification (callsOf (scaleInBranch env sess en c s)) = [] \<and>
   NodeFailureCount (stateOf (scaleInBranch env sess en c s)) = NodeFailureCount s"
  by (simp add: scaleInBranch_def Let_def split: option.splits)

lemma body_healthy_returns:
  "filter isHealthyVerification (callsOf (clusterScalingBody env c s)) \<noteq> [] \<Longrightarrow>
   flowOf (clusterScalingBody env c s) = Returned"
  using scaleOutBranch_healthy_returns [of env "AsgSession (Region (fst (resolveRegion env c)))"
      "ClusterScaling.Enabled (ClusterScaling c)" "fst (resolveRegion env c)" s]
    scaleInBranch_no_attempt [of env "AsgSession (Region (fst (resolveRegion env c)))"
      "ClusterScaling.Enabled (ClusterScaling c)" "fst (resolveRegion env c)" s]
  by (auto simp: body_eq split: if_splits)

lemma scaleOutBranch_returned_done:
  "flowOf (scaleOutBranch env sess en c s) = Returned \<longrightarrow>
   callsOf (scaleOutBranch env sess en c s) \<noteq> [] \<and>
   last (callsOf (scaleOutBranch env sess en c s)) = Done"
  using retryLoop_returned_done [of env sess 0 c s]
  by (auto simp: scaleOutBranch_def split: option.splits)

lemma scaleInBranch_returned_done:
  "flowOf (scaleInBranch env sess en c s) = Returned \<longrightarrow>
   callsOf (scaleInBranch env sess en c s) \<noteq> [] \<and>
   last (callsOf (scaleInBranch env sess en c s)) = Done"
  by (simp add: scaleInBranch_def Let_def split: option.splits)

lemma body_returned_done:
  "flowOf (clusterScalingBody env c s) = Returned \<Longrightarrow>
   last (callsOf (clusterScalingBody env c s)) = Done"
  using scaleOutBranch_returned_done [of env "AsgSession (Region (fst (resolveRegion env c)))"
      "ClusterScaling.Enabled (ClusterScaling c)" "fst (resolveRegion env c)" s]
    scaleInBranch_returned_done [of env "AsgSession (Region (fst (resolveRegion env c)))"
      "ClusterScaling.Enabled (ClusterScaling c)" "fst (resolveRegion env c)" s]
  by (auto simp: body_eq split: if_splits)

lemma scaleOutBranch_no_drain:
  "filter isDrain (callsOf (scaleOutBranch env sess en c s)) = []"
  using retryLoop_calls_out [of env sess 0 c s]
  by (simp add: scaleOutBranch_def filter_empty_conv split: option.splits)

lemma scaleInBranch_drain_falls:
  "filter isDrain (callsOf (scaleInBranch env sess en c s)) \<noteq> [] \<longrightarrow>
   flowOf (scaleInBranch env sess en c s) = FellThrough"
  by (simp add: scaleInBranch_def Let_def split: option.splits)

lemma body_drain_falls:
  "filter isDrain (callsOf (clusterScalingBody env c s)) \<noteq> [] \<Longrightarrow>
   flowOf (clusterScalingBody env c s) = FellThrough"
  using scaleOutBranch_no_drain [of env "AsgSession (Region (fst (resolveRegion env c)))"
      "ClusterScaling.Enabled (ClusterScaling c)" "fst (resolveRegion env c)" s]
    scaleInBranch_drain_falls [of env "AsgSession (Region (fst (resolveRegion env c)))"
      "ClusterScaling.Enabled (ClusterScaling c)" "fst (resolveRegion env c)" s]
  by (auto simp: body_eq split: if_splits)

lemma body_falls_through:
  "(leaderCheck env \<and> (capacityErr env \<noteq> None \<or> \<not> capacityScale env) \<longrightarrow>
      flowOf (clusterScalingBody env c s) = FellThrough) \<and>
   (leaderCheck env \<and> capacityErr env = None \<and> capacityScale env \<and> \<not> coolingDown env c s \<and>
    capacityDirection env = ScalingDirectionIn \<longrightarrow>
      (flowOf (clusterScalingBody env c s) = FellThrough) =
      (\<not> (snd (leastAllocatedNode env) \<noteq> [] \<and> fst (leastAllocatedNode env) \<noteq> [] \<and>
          \<not> ClusterScaling.Enabled (ClusterScaling c))))"
  by (auto simp: clusterScalingBody_def scaleInBranch_def 
      Let_def andThen_proj split: sum.splits option.splits if_splits)

lemma scaleOutBranch_count:
  "NodeFailureCount (stateOf (scaleOutBranch env sess en c s)) =
     (if filter isHealthyVerification (callsOf (scaleOutBranch env sess en c s)) \<noteq> [] then 0
      else NodeFailureCount s +
           int (length (filter isFailedAttempt (callsOf (scaleOutBranch env sess en c s)))))"
  using retryLoop_count [of env sess 0 c s]
  by (simp add: scaleOutBranch_def filter_empty_conv split: option.splits)

lemma body_count:
  "NodeFailureCount (stateOf (clusterScalingBody env c s)) =
     (if filter isHealthyVerification (callsOf (clusterScalingBody env c s)) \<noteq> [] then 0
      else NodeFailureCount s +
           int (length (filter isFailedAttempt (callsOf (clusterScalingBody env c s)))))"
  using scaleOutBranch_count [of env "AsgSession (Region (fst (resolveRegion env c)))"
      "ClusterScaling.Enabled (ClusterScaling c)" "fst (resolveRegion env c)" s]
    scaleInBranch_no_attempt [of env "AsgSession (Region (fst (resolveRegion env c)))"
      "ClusterScaling.Enabled (ClusterScaling c)" "fst (resolveRegion env c)" s]
  by (simp add: body_eq)

lemma retryLoop_no_attempt:
  "filter isIdentification (callsOf (retryLoop env sess i c s)) = [] \<longrightarrow>
   stateOf (retryLoop env sess i c s) = s"
  by (induction i s rule: retryLoop_cases [of c _ env]) (simp_all add: retryLoop_unfold)

lemma scaleOutBranch_no_attempt:
  "filter isIdentification (callsOf (scaleOutBranch env sess en c s)) = [] \<longrightarrow>
   stateOf (scaleOutBranch env sess en c s) = s"
  using retryLoop_no_attempt [of env sess 0 c s]
  by (simp add: scaleOutBranch_def split: option.splits)

lemma body_no_attempt:
  "filter isIdentification (callsOf (clusterScalingBody env c s)) = [] \<Longrightarrow>
   NodeFailureCount (stateOf (clusterScalingBody env c s)) = NodeFailureCount s"
  using scaleOutBranch_no_attempt [of env "AsgSession (Region (fst (resolveRegion env c)))"
      "ClusterScaling.Enabled (ClusterScaling c)" "fst (resolveRegion env c)" s]
    scaleInBranch_no_attempt [of env "AsgSession (Region (fst (resolveRegion env c)))"
      "ClusterScaling.Enabled (ClusterScaling c)" "fst (resolveRegion env c)" s]
  by (auto simp: body_eq split: if_splits)

lemma retryLoop_all_unhealthy:
  assumes "\<forall>j. \<exists>node. getMostRecentInstance (attempts env j) = Inr node"
    and "\<forall>j. \<not> verifyNodeHealth (attempts env j)"
  shows "NodeFailureCount s < RetryThreshold (ClusterScaling c) \<longrightarrow>
     flowOf (retryLoop env sess i c s) = Returned \<and>
     configOf (retryLoop env sess i c s) = disabledConfig c \<and>
     NodeFailureCount (stateOf (retryLoop env sess i c s)) = RetryThreshold (ClusterScaling c) \<and>
     int (length (filter isIdentification (callsOf (retryLoop env sess i c s)))) =
       RetryThreshold (ClusterScaling c) - NodeFailureCount s \<and>
     int (length (filter isVerification (callsOf (retryLoop env sess i c s)))) =
       RetryThreshold (ClusterScaling c) - NodeFailureCount s \<and>
     int (length (filter isTerminate (callsOf (retryLoop env sess i c s)))) =
       RetryThreshold (ClusterScaling c) - NodeFailureCount s - 1 \<and>
     length (filter isDetach (callsOf (retryLoop env sess i c s))) = 1"
proof (induction i s rule: retryLoop_cases [of c _ env])
  case (exit i s)
  then show ?case by simp
next
  case (unidentified i s err)
  with assms show ?case by (metis sum.distinct(1))
next
  case (healthy i s node)
  with assms show ?case by simp
next
  case (selfDisable i s node)
  show ?case
    by (simp add: retryLoop_selfDisable [OF selfDisable] bumped_def selfDisable(4) [symmetric])
next
  case (terminate i s node)
  then show ?case by (simp add: retryLoop_terminate bumped_def)
qed

subsection \<open>The job-scaling loops\<close>

lemma countGroups_eq:
  "countGroups c job grps i =
     i + (if JobScalingPolicy.Enabled job \<and> JobScaling.Enabled (JobScaling c)
          then int (length (filter needsScaling grps)) else 0)"
  by (induction grps arbitrary: i) (simp_all add: needsScaling_def)

lemma countGroups_positive:
  "(0 < countGroups c job (GroupScalingPolicies job) 0) = eligibleJob c job"
  by (auto simp: countGroups_eq eligibleJob_def filter_empty_conv)

lemma jobsLoop_eq: "jobsLoop c resp = map JobScale (filter (eligibleJob c) resp)"
  by (induction resp) (simp_all add: countGroups_positive)

section \<open>Leadership\<close>

text \<open>
  C7. A cluster-scaling pass and a job-scaling pass whose leadership check answers that
  this process is not the leader end at once: the cluster-scaling pass makes the
  leadership check and signals completion, the job-scaling pass makes the leadership
  check, and neither makes another call nor changes the configuration or the scaling
  state, whatever the capacity evaluation or the policies would have answered.
\<close>

theorem not_leader_no_action:
  "(\<not> leaderCheck env \<longrightarrow> clusterScaling env c s = (c, s, [LeaderCheck False, Done])) \<and>
   (\<not> jobLeaderCheck jenv \<longrightarrow> jobScaling jenv c = (c, [LeaderCheck False]))"
  by (simp add: clusterScaling_def clusterScalingBody_def jobScaling_def)

theorem not_leader_no_action_witness:
  "\<not> leaderCheck notLeaderEnv \<and> \<not> jobLeaderCheck notLeaderJobEnv \<and>
   clusterScaling notLeaderEnv (exampleConfig 2) freshState =
     (exampleConfig 2, freshState, [LeaderCheck False, Done]) \<and>
   jobScaling notLeaderJobEnv (exampleConfig 2) = (exampleConfig 2, [LeaderCheck False])"
  using not_leader_no_action [of notLeaderEnv "exampleConfig 2" freshState notLeaderJobEnv]
  by (simp add: notLeaderEnv_def notLeaderJobEnv_def scaleOutEnv_def)

section \<open>Cooldown\<close>

lemma int64_id:
  "- 9223372036854775808 \<le> x \<Longrightarrow> x \<le> 9223372036854775807 \<Longrightarrow> int64 x = x"
  by (simp add: int64_def)

text \<open>
  C4, as the claim states it, fails: the cooldown is added as a \<^verbatim>\<open>time.Duration\<close>, and the
  product \<^verbatim>\<open>time.Duration(CoolDown) * time.Second\<close> wraps around in 64 bits. With
  \<^verbatim>\<open>CoolDown\<close> 9223372037 the product is negative, so the deadline that the check computes
  lies before \<^verbatim>\<open>LastScalingEvent\<close>: a clock reading that is before \<^verbatim>\<open>LastScalingEvent\<close> plus
  \<^verbatim>\<open>CoolDown\<close> seconds passes the check, and the pass goes on to \<^verbatim>\<open>ScaleOutCluster\<close>.
\<close>

theorem cooldown_wraps_counterexample:
  "LastScalingEvent scaledBefore \<noteq> 0 \<and>
   timeNowCooldown (scaleOutEnv allUnhealthy) <
     LastScalingEvent scaledBefore + CoolDown (ClusterScaling longCooldownConfig) * Second \<and>
   int64 (CoolDown (ClusterScaling longCooldownConfig) * Second) = - 9223372036709551616 \<and>
   filter mutating
     (passCalls (clusterScaling (scaleOutEnv allUnhealthy) longCooldownConfig scaledBefore)) =
     [ScaleOutCluster ''workers'' (AsgSession ''us-east-1'') None,
      TerminateInstance ''i-0abc'' ''us-east-1'' None,
      DetachInstance ''workers'' ''i-0abc'' (AsgSession ''us-east-1'')
        (Some (Error ''detach failed''))]"
  by code_simp

text \<open>
  C4, amended. Let \<^verbatim>\<open>CoolDown\<close> seconds be a duration that 64 bits hold, that is, let
  \<^verbatim>\<open>CoolDown\<close> times \<open>10\<^sup>9\<close> lie between \<open>- 2\<^sup>6\<^sup>3\<close> and \<open>2\<^sup>6\<^sup>3 - 1\<close>. When
  \<^verbatim>\<open>LastScalingEvent\<close> is not the zero time and the clock reads a time before
  \<^verbatim>\<open>LastScalingEvent\<close> plus \<^verbatim>\<open>CoolDown\<close> seconds, the pass leaves the scaling state as it
  was, makes no mutating call, and signals completion exactly once, whatever the
  direction. When \<^verbatim>\<open>LastScalingEvent\<close> is the zero time the cooldown check lets the pass
  through, whatever \<^verbatim>\<open>CoolDown\<close> is: a leader whose capacity evaluation asks for scaling
  goes on to \<^verbatim>\<open>ScaleOutCluster\<close> (direction out, scaling enabled) or to
  \<^verbatim>\<open>LeastAllocatedNode\<close> (direction in).
\<close>

theorem cooldown_suppresses_pass:
  "(LastScalingEvent s \<noteq> 0 \<and>
    - 9223372036854775808 \<le> CoolDown (ClusterScaling c) * Second \<and>
    CoolDown (ClusterScaling c) * Second \<le> 9223372036854775807 \<and>
    timeNowCooldown env < LastScalingEvent s + CoolDown (ClusterScaling c) * Second \<longrightarrow>
      passState (clusterScaling env c s) = s \<and>
      filter mutating (passCalls (clusterScaling env c s)) = [] \<and>
      count_list (passCalls (clusterScaling env c s)) Done = 1) \<and>
   (LastScalingEvent s = 0 \<longrightarrow>
      \<not> coolingDown env c s \<and>
      (leaderCheck env \<and> capacityErr env = None \<and> capacityScale env \<longrightarrow>
         (capacityDirection env = ScalingDirectionOut \<and>
          ClusterScaling.Enabled (ClusterScaling c) \<longrightarrow>
            (\<exists>sess. ScaleOutCluster (AutoscalingGroup (ClusterScaling c)) sess
                      (scaleOutCluster env) \<in> set (passCalls (clusterScaling env c s)))) \<and>
         (capacityDirection env = ScalingDirectionIn \<longrightarrow>
            LeastAllocatedNode (leastAllocatedNode env)
              \<in> set (passCalls (clusterScaling env c s)))))"
proof (intro conjI impI)
  assume a: "LastScalingEvent s \<noteq> 0 \<and>
    - 9223372036854775808 \<le> CoolDown (ClusterScaling c) * Second \<and>
    CoolDown (ClusterScaling c) * Second \<le> 9223372036854775807 \<and>
    timeNowCooldown env < LastScalingEvent s + CoolDown (ClusterScaling c) * Second"
  then have "int64 (CoolDown (ClusterScaling c) * Second) = CoolDown (ClusterScaling c) * Second"
    by (simp add: int64_id)
  with a have cooling: "coolingDown env c s"
    by (simp add: coolingDown_def IsZero_def Add_def Before_def)
  show "passState (clusterScaling env c s) = s"
    and "filter mutating (passCalls (clusterScaling env c s)) = []"
    and "count_list (passCalls (clusterScaling env c s)) Done = 1"
    using cooling by (auto simp: clusterScaling_alt body_eq resolveRegion_def split: sum.splits)
next
  assume zero: "LastScalingEvent s = 0"
  then show free: "\<not> coolingDown env c s"
    by (simp add: coolingDown_def IsZero_def)
  {
    assume "leaderCheck env \<and> capacityErr env = None \<and> capacityScale env"
      and "capacityDirection env = ScalingDirectionOut \<and> ClusterScaling.Enabled (ClusterScaling c)"
    with free show "\<exists>sess. ScaleOutCluster (AutoscalingGroup (ClusterScaling c)) sess
        (scaleOutCluster env) \<in> set (passCalls (clusterScaling env c s))"
      by (auto simp: clusterScaling_alt body_eq scaleOutBranch_def resolveRegion_def
          split: sum.splits)
  }
  {
    assume "leaderCheck env \<and> capacityErr env = None \<and> capacityScale env"
      and "capacityDirection env = ScalingDirectionIn"
    with free show "LeastAllocatedNode (leastAllocatedNode env)
        \<in> set (passCalls (clusterScaling env c s))"
      by (auto simp: clusterScaling_alt body_eq scaleInBranch_def Let_def)
  }
qed

theorem cooldown_suppresses_pass_witness:
  "LastScalingEvent scaledBefore \<noteq> 0 \<and>
   - 9223372036854775808 \<le> CoolDown (ClusterScaling (exampleConfig 2)) * Second \<and>
   CoolDown (ClusterScaling (exampleConfig 2)) * Second \<le> 9223372036854775807 \<and>
   timeNowCooldown (scaleOutEnv allUnhealthy) <
     LastScalingEvent scaledBefore + CoolDown (ClusterScaling (exampleConfig 2)) * Second \<and>
   passState (clusterScaling (scaleOutEnv allUnhealthy) (exampleConfig 2) scaledBefore) =
     scaledBefore \<and>
   filter mutating
     (passCalls (clusterScaling (scaleOutEnv allUnhealthy) (exampleConfig 2) scaledBefore)) = [] \<and>
   LastScalingEvent freshState = 0 \<and> leaderCheck scaleInEnv \<and> capacityErr scaleInEnv = None \<and>
   capacityScale scaleInEnv \<and> capacityDirection scaleInEnv = ScalingDirectionIn \<and>
   LeastAllocatedNode (leastAllocatedNode scaleInEnv)
     \<in> set (passCalls (clusterScaling scaleInEnv (exampleConfig 2) freshState)) \<and>
   capacityDirection (scaleOutEnv allUnhealthy) = ScalingDirectionOut \<and>
   ClusterScaling.Enabled (ClusterScaling (exampleConfig 2)) \<and>
   (\<exists>sess. ScaleOutCluster (AutoscalingGroup (ClusterScaling (exampleConfig 2))) sess
             (scaleOutCluster (scaleOutEnv allUnhealthy))
      \<in> set (passCalls (clusterScaling (scaleOutEnv allUnhealthy) (exampleConfig 2) freshState)))"
proof -
  have window: "LastScalingEvent scaledBefore \<noteq> 0"
    "- 9223372036854775808 \<le> CoolDown (ClusterScaling (exampleConfig 2)) * Second"
    "CoolDown (ClusterScaling (exampleConfig 2)) * Second \<le> 9223372036854775807"
    "timeNowCooldown (scaleOutEnv allUnhealthy) <
       LastScalingEvent scaledBefore + CoolDown (ClusterScaling (exampleConfig 2)) * Second"
    by code_simp+
  have first: "LastScalingEvent freshState = 0"
    by code_simp
  have scaleIn: "leaderCheck scaleInEnv" "capacityErr scaleInEnv = None" "capacityScale scaleInEnv"
    "capacityDirection scaleInEnv = ScalingDirectionIn"
    by code_simp+
  have scaleOut: "leaderCheck (scaleOutEnv allUnhealthy)"
    "capacityErr (scaleOutEnv allUnhealthy) = None" "capacityScale (scaleOutEnv allUnhealthy)"
    "capacityDirection (scaleOutEnv allUnhealthy) = ScalingDirectionOut"
    "ClusterScaling.Enabled (ClusterScaling (exampleConfig 2))"
    by code_simp+
  show ?thesis
    using window first scaleIn scaleOut
      cooldown_suppresses_pass [of scaledBefore "exampleConfig 2" "scaleOutEnv allUnhealthy"]
      cooldown_suppresses_pass [of freshState "exampleConfig 2" scaleInEnv]
      cooldown_suppresses_pass [of freshState "exampleConfig 2" "scaleOutEnv allUnhealthy"]
    by blast
qed

section \<open>What a pass writes to the configuration\<close>




section \<open>Scale-in\<close>

text \<open>
  C6. In every pass, a \<^verbatim>\<open>ScaleInCluster\<close> call (the termination of the instance) comes
  directly after a \<^verbatim>\<open>DrainNode\<close> call for the chosen node that answered without error.
  In a pass with direction in, \<^verbatim>\<open>LastScalingEvent\<close> changes only when a
  \<^verbatim>\<open>ScaleInCluster\<close> call answered without error. So in a pass whose \<^verbatim>\<open>DrainNode\<close> call
  fails there is no \<^verbatim>\<open>ScaleInCluster\<close> call and no \<^verbatim>\<open>TerminateInstance\<close> call, and
  \<^verbatim>\<open>LastScalingEvent\<close> is as before.
\<close>

theorem scale_in_order:
  "(\<forall>pre e post. passCalls (clusterScaling env c s) = pre @ e # post \<and> isScaleIn e \<longrightarrow>
      pre \<noteq> [] \<and> last pre = DrainNode (fst (leastAllocatedNode env)) None) \<and>
   (capacityDirection env = ScalingDirectionIn \<and>
    LastScalingEvent (passState (clusterScaling env c s)) \<noteq> LastScalingEvent s \<longrightarrow>
      (\<exists>sess. ScaleInCluster (AutoscalingGroup (ClusterScaling c)) (snd (leastAllocatedNode env))
                sess None \<in> set (passCalls (clusterScaling env c s)))) \<and>
   (filter isFailedDrain (passCalls (clusterScaling env c s)) \<noteq> [] \<longrightarrow>
      filter isScaleIn (passCalls (clusterScaling env c s)) = [] \<and>
      filter isTerminate (passCalls (clusterScaling env c s)) = [] \<and>
      LastScalingEvent (passState (clusterScaling env c s)) = LastScalingEvent s)"
proof (intro conjI allI impI)
  fix pre e post
  assume "passCalls (clusterScaling env c s) = pre @ e # post \<and> isScaleIn e"
  then show "pre \<noteq> []" and "last pre = DrainNode (fst (leastAllocatedNode env)) None"
    using scaleIn_after_drain [of env c s pre e post] by simp_all
next
  assume "capacityDirection env = ScalingDirectionIn \<and>
    LastScalingEvent (passState (clusterScaling env c s)) \<noteq> LastScalingEvent s"
  then show "\<exists>sess. ScaleInCluster (AutoscalingGroup (ClusterScaling c))
      (snd (leastAllocatedNode env)) sess None \<in> set (passCalls (clusterScaling env c s))"
    using event_after_scaleIn [of env c s] by simp
next
  assume "filter isFailedDrain (passCalls (clusterScaling env c s)) \<noteq> []"
  then have failed: "\<exists>e\<in>set (passCalls (clusterScaling env c s)). isFailedDrain e"
    by (simp add: filter_empty_conv)
  show "filter isScaleIn (passCalls (clusterScaling env c s)) = []"
    and "filter isTerminate (passCalls (clusterScaling env c s)) = []"
    and "LastScalingEvent (passState (clusterScaling env c s)) = LastScalingEvent s"
    using failed_drain_stops [OF failed] by (simp_all add: filter_empty_conv)
qed

theorem scale_in_order_witness:
  "passCalls (clusterScaling scaleInEnv (exampleConfig 2) freshState) =
     [LeaderCheck True, EvaluateClusterCapacity ScalingDirectionIn True None,
      NewAWSAsgService ''us-east-1'', LeastAllocatedNode (''node-7'', ''10.0.0.7''),
      DrainNode ''node-7'' None] @
     ScaleInCluster ''workers'' ''10.0.0.7'' (AsgSession ''us-east-1'') None #
     [Done, IncrCounter [''cluster'', ''scale_out_success''] 1] \<and>
   last [LeaderCheck True, EvaluateClusterCapacity ScalingDirectionIn True None,
         NewAWSAsgService ''us-east-1'', LeastAllocatedNode (''node-7'', ''10.0.0.7''),
         DrainNode ''node-7'' None] = DrainNode (fst (leastAllocatedNode scaleInEnv)) None \<and>
   capacityDirection scaleInEnv = ScalingDirectionIn \<and>
   LastScalingEvent (passState (clusterScaling scaleInEnv (exampleConfig 2) freshState)) \<noteq>
     LastScalingEvent freshState \<and>
   filter isFailedDrain (passCalls (clusterScaling failedDrainEnv (exampleConfig 2) freshState)) \<noteq> [] \<and>
   filter isScaleIn (passCalls (clusterScaling failedDrainEnv (exampleConfig 2) freshState)) = [] \<and>
   LastScalingEvent (passState (clusterScaling failedDrainEnv (exampleConfig 2) freshState)) =
     LastScalingEvent freshState"
proof -
  have calls: "passCalls (clusterScaling scaleInEnv (exampleConfig 2) freshState) =
     [LeaderCheck True, EvaluateClusterCapacity ScalingDirectionIn True None,
      NewAWSAsgService ''us-east-1'', LeastAllocatedNode (''node-7'', ''10.0.0.7''),
      DrainNode ''node-7'' None] @
     ScaleInCluster ''workers'' ''10.0.0.7'' (AsgSession ''us-east-1'') None #
     [Done, IncrCounter [''cluster'', ''scale_out_success''] 1]"
    by code_simp
  have scaleIn: "isScaleIn (ScaleInCluster ''workers'' ''10.0.0.7'' (AsgSession ''us-east-1'') None)"
    by simp
  have direction: "capacityDirection scaleInEnv = ScalingDirectionIn"
    by code_simp
  have changed: "LastScalingEvent (passState (clusterScaling scaleInEnv (exampleConfig 2) freshState)) \<noteq>
     LastScalingEvent freshState"
    by code_simp
  have failed: "filter isFailedDrain
      (passCalls (clusterScaling failedDrainEnv (exampleConfig 2) freshState)) \<noteq> []"
    by code_simp
  show ?thesis
    using calls scaleIn direction changed failed
      scale_in_order [of scaleInEnv "exampleConfig 2" freshState]
      scale_in_order [of failedDrainEnv "exampleConfig 2" freshState]
    by blast
qed

section \<open>The unhealthy iteration\<close>

text \<open>
  C8. Take an iteration of the retry loop in which the newest instance is identified and
  its health verification fails. When \<^verbatim>\<open>disableClusterScaling\<close> fires, the loop ends
  there: the configuration has \<^verbatim>\<open>ClusterScaling.Enabled\<close> false, the last calls are
  \<^verbatim>\<open>DetachInstance\<close> for the failed instance and the completion signal, there is no
  \<^verbatim>\<open>TerminateInstance\<close> call, and the answer of \<^verbatim>\<open>DetachInstance\<close> (an error or not) makes
  no difference. Otherwise the iteration calls \<^verbatim>\<open>TerminateInstance\<close> for the failed
  instance and the loop goes on with the next iteration. For the whole pass: a pass
  that turns \<^verbatim>\<open>ClusterScaling.Enabled\<close> from true to false ends with a
  \<^verbatim>\<open>DetachInstance\<close> call followed by the completion signal.
\<close>

theorem unhealthy_iteration_detach_or_terminate:
  "(NodeFailureCount s \<le> RetryThreshold (ClusterScaling c) \<and>
    getMostRecentInstance (attempts env i) = Inr node \<and>
    \<not> verifyNodeHealth (attempts env i) \<longrightarrow>
    (if fst (disableClusterScaling c (bumped s)) then
       retryLoop env sess i c s =
         (disabledConfig c, bumped s,
          [GetMostRecentInstance (AutoscalingGroup (ClusterScaling c)) (Region c) (Inr node),
           VerifyNodeHealth node False,
           IncrCounter [''cluster'', ''scale_out_failed''] 1,
           TranslateIptoID node (Region c) (translateIptoID (attempts env i)),
           DetachInstance (AutoscalingGroup (ClusterScaling c)) (translateIptoID (attempts env i))
             sess (detachInstance (attempts env i)),
           Done], Returned)
     else
       retryLoop env sess i c s =
         emit [GetMostRecentInstance (AutoscalingGroup (ClusterScaling c)) (Region c) (Inr node),
               VerifyNodeHealth node False,
               IncrCounter [''cluster'', ''scale_out_failed''] 1,
               TranslateIptoID node (Region c) (translateIptoID (attempts env i)),
               TerminateInstance (translateIptoID (attempts env i)) (Region c)
                 (terminateInstance (attempts env i))]
           (retryLoop env sess (Suc i) c (bumped s)))) \<and>
   (ClusterScaling.Enabled (ClusterScaling c) \<and>
    \<not> ClusterScaling.Enabled (ClusterScaling (passConfig (clusterScaling env c s))) \<longrightarrow>
    (\<exists>pre asg instanceID sess r. passCalls (clusterScaling env c s) =
        pre @ [DetachInstance asg instanceID sess r, Done]))"
  using pass_disabled_ends [of c env s]
  by (auto simp: retryLoop_selfDisable retryLoop_terminate disableClusterScaling_def bumped_def)

theorem unhealthy_iteration_detach_or_terminate_witness:
  "NodeFailureCount oneFailure \<le> RetryThreshold (ClusterScaling (exampleConfig 2)) \<and>
   getMostRecentInstance (attempts (scaleOutEnv allUnhealthy) 0) = Inr ''10.0.0.1'' \<and>
   \<not> verifyNodeHealth (attempts (scaleOutEnv allUnhealthy) 0) \<and>
   fst (disableClusterScaling (exampleConfig 2) (bumped oneFailure)) \<and>
   retryLoop (scaleOutEnv allUnhealthy) (AsgSession ''us-east-1'') 0 (exampleConfig 2) oneFailure =
     (disabledConfig (exampleConfig 2), bumped oneFailure,
      [GetMostRecentInstance ''workers'' ''us-east-1'' (Inr ''10.0.0.1''),
       VerifyNodeHealth ''10.0.0.1'' False,
       IncrCounter [''cluster'', ''scale_out_failed''] 1,
       TranslateIptoID ''10.0.0.1'' ''us-east-1'' ''i-0abc'',
       DetachInstance ''workers'' ''i-0abc'' (AsgSession ''us-east-1'')
         (Some (Error ''detach failed'')),
       Done], Returned) \<and>
   NodeFailureCount freshState \<le> RetryThreshold (ClusterScaling (exampleConfig 2)) \<and>
   \<not> fst (disableClusterScaling (exampleConfig 2) (bumped freshState)) \<and>
   retryLoop (scaleOutEnv allUnhealthy) (AsgSession ''us-east-1'') 0 (exampleConfig 2) freshState =
     emit [GetMostRecentInstance ''workers'' ''us-east-1'' (Inr ''10.0.0.1''),
           VerifyNodeHealth ''10.0.0.1'' False,
           IncrCounter [''cluster'', ''scale_out_failed''] 1,
           TranslateIptoID ''10.0.0.1'' ''us-east-1'' ''i-0abc'',
           TerminateInstance ''i-0abc'' ''us-east-1'' None]
       (retryLoop (scaleOutEnv allUnhealthy) (AsgSession ''us-east-1'') (Suc 0) (exampleConfig 2)
          (bumped freshState)) \<and>
   ClusterScaling.Enabled (ClusterScaling (exampleConfig 2)) \<and>
   \<not> ClusterScaling.Enabled
       (ClusterScaling (passConfig (clusterScaling (scaleOutEnv allUnhealthy) (exampleConfig 2) freshState)))"
proof -
  have inLoop0: "NodeFailureCount freshState \<le> RetryThreshold (ClusterScaling (exampleConfig 2))"
    by code_simp
  have goesOn: "\<not> fst (disableClusterScaling (exampleConfig 2) (bumped freshState))"
    by code_simp
  have inLoop: "NodeFailureCount oneFailure \<le> RetryThreshold (ClusterScaling (exampleConfig 2))"
    by code_simp
  have identified: "getMostRecentInstance (attempts (scaleOutEnv allUnhealthy) 0) = Inr ''10.0.0.1''"
    by code_simp
  have unhealthy: "\<not> verifyNodeHealth (attempts (scaleOutEnv allUnhealthy) 0)"
    by code_simp
  have fires: "fst (disableClusterScaling (exampleConfig 2) (bumped oneFailure))"
    by code_simp
  have enabled: "ClusterScaling.Enabled (ClusterScaling (exampleConfig 2))"
    by code_simp
  have disabled: "\<not> ClusterScaling.Enabled
       (ClusterScaling (passConfig (clusterScaling (scaleOutEnv allUnhealthy) (exampleConfig 2) freshState)))"
    by code_simp
  have answers: "AutoscalingGroup (ClusterScaling (exampleConfig 2)) = ''workers''"
    "Region (exampleConfig 2) = ''us-east-1''"
    "translateIptoID (attempts (scaleOutEnv allUnhealthy) 0) = ''i-0abc''"
    "detachInstance (attempts (scaleOutEnv allUnhealthy) 0) = Some (Error ''detach failed'')"
    "terminateInstance (attempts (scaleOutEnv allUnhealthy) 0) = None"
    by code_simp+
  show ?thesis
    using inLoop inLoop0 goesOn identified unhealthy fires enabled disabled
      unhealthy_iteration_detach_or_terminate [of oneFailure "exampleConfig 2"
        "scaleOutEnv allUnhealthy" 0 "''10.0.0.1''" "AsgSession ''us-east-1''"]
      unhealthy_iteration_detach_or_terminate [of freshState "exampleConfig 2"
        "scaleOutEnv allUnhealthy" 0 "''10.0.0.1''" "AsgSession ''us-east-1''"]
    unfolding answers by simp
qed

section \<open>The success counter\<close>

text \<open>
  C10. A pass in which a health verification succeeds does not emit the counter
  \<^verbatim>\<open>cluster.scale_out_success\<close>. The counter is emitted exactly when the pass reaches
  line 239 without an earlier \<^verbatim>\<open>return\<close>, once, directly after the completion signal; a
  pass that returns earlier ends with the completion signal. A leader's pass whose
  capacity evaluation fails or asks for no scaling reaches line 239, and so does a pass
  with direction in that is past the cooldown check, unless it finds a node to remove
  while cluster scaling is disabled. In particular every pass that calls \<^verbatim>\<open>DrainNode\<close>
  reaches line 239 and emits the counter.
\<close>

theorem success_counter_on_fall_through:
  "(filter isHealthyVerification (passCalls (clusterScaling env c s)) \<noteq> [] \<longrightarrow>
      filter isSuccessCounter (passCalls (clusterScaling env c s)) = []) \<and>
   filter isSuccessCounter (passCalls (clusterScaling env c s)) =
     (if flowOf (clusterScalingBody env c s) = FellThrough
      then [IncrCounter [''cluster'', ''scale_out_success''] 1] else []) \<and>
   passCalls (clusterScaling env c s) =
     (if flowOf (clusterScalingBody env c s) = FellThrough
      then callsOf (clusterScalingBody env c s) @
           [Done, IncrCounter [''cluster'', ''scale_out_success''] 1]
      else callsOf (clusterScalingBody env c s)) \<and>
   (flowOf (clusterScalingBody env c s) = Returned \<longrightarrow>
      last (callsOf (clusterScalingBody env c s)) = Done) \<and>
   (leaderCheck env \<and> (capacityErr env \<noteq> None \<or> \<not> capacityScale env) \<longrightarrow>
      flowOf (clusterScalingBody env c s) = FellThrough) \<and>
   (leaderCheck env \<and> capacityErr env = None \<and> capacityScale env \<and> \<not> coolingDown env c s \<and>
    capacityDirection env = ScalingDirectionIn \<longrightarrow>
      (flowOf (clusterScalingBody env c s) = FellThrough) =
      (\<not> (snd (leastAllocatedNode env) \<noteq> [] \<and> fst (leastAllocatedNode env) \<noteq> [] \<and>
          \<not> ClusterScaling.Enabled (ClusterScaling c)))) \<and>
   (filter isDrain (passCalls (clusterScaling env c s)) \<noteq> [] \<longrightarrow>
      flowOf (clusterScalingBody env c s) = FellThrough)"
proof -
  have calls: "passCalls (clusterScaling env c s) =
     (if flowOf (clusterScalingBody env c s) = FellThrough
      then callsOf (clusterScalingBody env c s) @
           [Done, IncrCounter [''cluster'', ''scale_out_success''] 1]
      else callsOf (clusterScalingBody env c s))"
    by (simp add: clusterScaling_alt)
  have counter: "filter isSuccessCounter (passCalls (clusterScaling env c s)) =
     (if flowOf (clusterScalingBody env c s) = FellThrough
      then [IncrCounter [''cluster'', ''scale_out_success''] 1] else [])"
    by (simp add: calls body_no_success)
  have healthy: "filter isSuccessCounter (passCalls (clusterScaling env c s)) = []"
    if "filter isHealthyVerification (passCalls (clusterScaling env c s)) \<noteq> []"
  proof (cases "flowOf (clusterScalingBody env c s)")
    case Returned
    then show ?thesis by (simp add: counter)
  next
    case FellThrough
    with that have "filter isHealthyVerification (callsOf (clusterScalingBody env c s)) \<noteq> []"
      by (simp add: calls)
    from body_healthy_returns [OF this] FellThrough show ?thesis by simp
  qed
  have returned: "last (callsOf (clusterScalingBody env c s)) = Done"
    if "flowOf (clusterScalingBody env c s) = Returned"
    using that by (rule body_returned_done)
  have drained: "flowOf (clusterScalingBody env c s) = FellThrough"
    if "filter isDrain (passCalls (clusterScaling env c s)) \<noteq> []"
  proof -
    from that have "filter isDrain (callsOf (clusterScalingBody env c s)) \<noteq> []"
      by (simp add: calls split: if_splits)
    then show ?thesis by (rule body_drain_falls)
  qed
  show ?thesis
    using calls counter healthy returned drained body_falls_through [of env c s] by blast
qed


theorem success_counter_on_fall_through_witness:
  "filter isHealthyVerification
     (passCalls (clusterScaling (scaleOutEnv unhealthyThenHealthy) (exampleConfig 2) freshState)) \<noteq> [] \<and>
   filter isSuccessCounter
     (passCalls (clusterScaling (scaleOutEnv unhealthyThenHealthy) (exampleConfig 2) freshState)) = [] \<and>
   flowOf (clusterScalingBody (scaleOutEnv unhealthyThenHealthy) (exampleConfig 2) freshState) = Returned \<and>
   last (callsOf (clusterScalingBody (scaleOutEnv unhealthyThenHealthy) (exampleConfig 2) freshState)) = Done \<and>
   leaderCheck idleEnv \<and> \<not> capacityScale idleEnv \<and>
   flowOf (clusterScalingBody idleEnv (exampleConfig 2) freshState) = FellThrough \<and>
   filter isSuccessCounter (passCalls (clusterScaling idleEnv (exampleConfig 2) freshState)) =
     [IncrCounter [''cluster'', ''scale_out_success''] 1] \<and>
   leaderCheck scaleInEnv \<and> capacityErr scaleInEnv = None \<and> capacityScale scaleInEnv \<and>
   \<not> coolingDown scaleInEnv (exampleConfig 2) freshState \<and>
   capacityDirection scaleInEnv = ScalingDirectionIn \<and>
   ClusterScaling.Enabled (ClusterScaling (exampleConfig 2)) \<and>
   flowOf (clusterScalingBody scaleInEnv (exampleConfig 2) freshState) = FellThrough \<and>
   filter isDrain (passCalls (clusterScaling failedDrainEnv (exampleConfig 2) freshState)) \<noteq> [] \<and>
   flowOf (clusterScalingBody failedDrainEnv (exampleConfig 2) freshState) = FellThrough"
proof -
  have healthy: "filter isHealthyVerification
     (passCalls (clusterScaling (scaleOutEnv unhealthyThenHealthy) (exampleConfig 2) freshState)) \<noteq> []"
    by code_simp
  have returned:
    "flowOf (clusterScalingBody (scaleOutEnv unhealthyThenHealthy) (exampleConfig 2) freshState) = Returned"
    by code_simp
  have idle: "leaderCheck idleEnv" "\<not> capacityScale idleEnv"
    by code_simp+
  have scaleIn: "leaderCheck scaleInEnv" "capacityErr scaleInEnv = None" "capacityScale scaleInEnv"
    "\<not> coolingDown scaleInEnv (exampleConfig 2) freshState"
    "capacityDirection scaleInEnv = ScalingDirectionIn"
    "ClusterScaling.Enabled (ClusterScaling (exampleConfig 2))"
    by code_simp+
  note A = success_counter_on_fall_through
    [of "scaleOutEnv unhealthyThenHealthy" "exampleConfig 2" freshState]
  note B = success_counter_on_fall_through [of idleEnv "exampleConfig 2" freshState]
  note C = success_counter_on_fall_through [of scaleInEnv "exampleConfig 2" freshState]
  have a1: "filter isSuccessCounter
     (passCalls (clusterScaling (scaleOutEnv unhealthyThenHealthy) (exampleConfig 2) freshState)) = []"
    using A healthy by blast
  have a2: "last (callsOf (clusterScalingBody (scaleOutEnv unhealthyThenHealthy)
      (exampleConfig 2) freshState)) = Done"
    using A returned by blast
  have b1: "flowOf (clusterScalingBody idleEnv (exampleConfig 2) freshState) = FellThrough"
    using B idle by blast
  from B have "filter isSuccessCounter (passCalls (clusterScaling idleEnv (exampleConfig 2) freshState)) =
     (if flowOf (clusterScalingBody idleEnv (exampleConfig 2) freshState) = FellThrough
      then [IncrCounter [''cluster'', ''scale_out_success''] 1] else [])"
    by blast
  with b1 have b2:
    "filter isSuccessCounter (passCalls (clusterScaling idleEnv (exampleConfig 2) freshState)) =
     [IncrCounter [''cluster'', ''scale_out_success''] 1]"
    by simp
  have c1: "flowOf (clusterScalingBody scaleInEnv (exampleConfig 2) freshState) = FellThrough"
    using C scaleIn by blast
  have drain: "filter isDrain
      (passCalls (clusterScaling failedDrainEnv (exampleConfig 2) freshState)) \<noteq> []"
    by code_simp
  have d1: "flowOf (clusterScalingBody failedDrainEnv (exampleConfig 2) freshState) = FellThrough"
    using success_counter_on_fall_through [of failedDrainEnv "exampleConfig 2" freshState] drain
    by blast
  show ?thesis
    using healthy returned idle scaleIn a1 a2 b1 b2 c1 drain d1 by blast
qed

section \<open>The failure counter\<close>

text \<open>
  What a pass does to \<^verbatim>\<open>NodeFailureCount\<close>: a pass in which a health verification
  succeeds leaves it at 0; any other pass leaves it at its value before the pass plus the
  number of failed attempts of the retry loop in that pass, so that it grows inside the
  retry loop only, and a pass that makes no attempt leaves it as it was.
\<close>

lemma failure_count_after_pass:
  "NodeFailureCount (passState (clusterScaling env c s)) =
     (if filter isHealthyVerification (passCalls (clusterScaling env c s)) \<noteq> [] then 0
      else NodeFailureCount s +
           int (length (filter isFailedAttempt (passCalls (clusterScaling env c s)))))"
  using body_count [of env c s] by (simp add: clusterScaling_alt)

lemma failure_count_without_attempt:
  assumes "filter isIdentification (passCalls (clusterScaling env c s)) = []"
  shows "NodeFailureCount (passState (clusterScaling env c s)) = NodeFailureCount s"
proof -
  from assms have "filter isIdentification (callsOf (clusterScalingBody env c s)) = []"
    by (simp add: clusterScaling_alt)
  from body_no_attempt [OF this] show ?thesis
    by (simp add: clusterScaling_alt)
qed

text \<open>
  Between the passes of a run the counter is 0, or cluster scaling has been disabled, or
  the counter has gone past the threshold; so in a run every pass that makes an attempt
  begins its retry loop with the counter at 0.
\<close>

lemma retryLoop_attempt_in_loop:
  "filter isIdentification (callsOf (retryLoop env sess i c s)) \<noteq> [] \<longrightarrow>
   NodeFailureCount s \<le> RetryThreshold (ClusterScaling c)"
  by (cases "NodeFailureCount s \<le> RetryThreshold (ClusterScaling c)")
     (simp_all add: retryLoop_exit)

lemma betweenPasses_disabled [simp]: "betweenPasses (disabledConfig c) s"
  by (simp add: betweenPasses_def disabledConfig_def)

lemma betweenPasses_region [simp]:
  "betweenPasses (fst (resolveRegion env c)) s = betweenPasses c s"
  by (simp add: betweenPasses_def resolveRegion_def split: sum.splits)

lemma betweenPasses_event [simp]:
  "betweenPasses c (s\<lparr>LastScalingEvent := t\<rparr>) = betweenPasses c s"
  by (simp add: betweenPasses_def)

lemma retryLoop_between:
  "betweenPasses (configOf (retryLoop env sess i c s)) (stateOf (retryLoop env sess i c s))"
proof (induction i s rule: retryLoop_cases [of c _ env])
  case (exit i s)
  then show ?case by (simp add: retryLoop_exit betweenPasses_def)
next
  case (unidentified i s err)
  then show ?case by (simp add: retryLoop_unidentified)
next
  case (healthy i s node)
  then show ?case by (simp add: retryLoop_healthy betweenPasses_def)
next
  case (selfDisable i s node)
  then show ?case by (simp add: retryLoop_selfDisable)
next
  case (terminate i s node)
  then show ?case by (simp add: retryLoop_terminate)
qed

lemma scaleOutBranch_between:
  "betweenPasses c s \<longrightarrow>
   betweenPasses (configOf (scaleOutBranch env sess en c s)) (stateOf (scaleOutBranch env sess en c s))"
  using retryLoop_between [of env sess 0 c s]
  by (simp add: scaleOutBranch_def split: option.splits)

lemma scaleInBranch_between:
  "betweenPasses c s \<longrightarrow>
   betweenPasses (configOf (scaleInBranch env sess en c s)) (stateOf (scaleInBranch env sess en c s))"
  by (simp add: scaleInBranch_def Let_def split: option.splits)

lemma pass_between:
  "betweenPasses c s \<Longrightarrow>
   betweenPasses (passConfig (clusterScaling env c s)) (passState (clusterScaling env c s))"
  using scaleOutBranch_between [of "fst (resolveRegion env c)" s env
      "AsgSession (Region (fst (resolveRegion env c)))" "ClusterScaling.Enabled (ClusterScaling c)"]
    scaleInBranch_between [of "fst (resolveRegion env c)" s env
      "AsgSession (Region (fst (resolveRegion env c)))" "ClusterScaling.Enabled (ClusterScaling c)"]
  by (simp add: clusterScaling_alt body_eq)

lemma scaleOutBranch_attempt:
  "filter isIdentification (callsOf (scaleOutBranch env sess en c s)) \<noteq> [] \<longrightarrow>
   en \<and> NodeFailureCount s \<le> RetryThreshold (ClusterScaling c)"
  using retryLoop_attempt_in_loop [of env sess 0 c s]
  by (simp add: scaleOutBranch_def split: option.splits)

lemma pass_attempt:
  "filter isIdentification (passCalls (clusterScaling env c s)) \<noteq> [] \<Longrightarrow>
   ClusterScaling.Enabled (ClusterScaling c) \<and>
   NodeFailureCount s \<le> RetryThreshold (ClusterScaling c)"
  using scaleOutBranch_attempt [of env "AsgSession (Region (fst (resolveRegion env c)))"
      "ClusterScaling.Enabled (ClusterScaling c)" "fst (resolveRegion env c)" s]
    scaleInBranch_no_attempt [of env "AsgSession (Region (fst (resolveRegion env c)))"
      "ClusterScaling.Enabled (ClusterScaling c)" "fst (resolveRegion env c)" s]
  by (auto simp: clusterScaling_alt body_eq resolveRegion_def split: if_splits sum.splits)

lemma ticks_between:
  "betweenPasses c s \<Longrightarrow> ticks envs c s = (c', s', trs) \<Longrightarrow> betweenPasses c' s'"
proof (induction envs arbitrary: c s trs)
  case Nil
  then show ?case by simp
next
  case (Cons e envs)
  obtain cenv jenv where e: "e = (cenv, jenv)" by (cases e)
  obtain trs' where rest: "ticks envs (passConfig (clusterScaling cenv c s))
      (passState (clusterScaling cenv c s)) = (c', s', trs')"
    using Cons.prems(2)
    by (cases "clusterScaling cenv c s";
        cases "ticks envs (passConfig (clusterScaling cenv c s)) (passState (clusterScaling cenv c s))")
       (auto simp: e jobScaling_def)
  from Cons.IH [OF pass_between [OF Cons.prems(1)] rest] show ?case .
qed

lemma attempt_begins_at_zero:
  assumes "Start c envs = Inr (c', s', trs)"
    and "filter isIdentification (passCalls (clusterScaling env c' s')) \<noteq> []"
  shows "NodeFailureCount s' = 0"
proof -
  from assms(1) have "ticks envs c \<lparr>LastScalingEvent = 0, NodeFailureCount = 0\<rparr> = (c', s', trs)"
    by (simp add: Start_def split: if_splits)
  moreover have "betweenPasses c \<lparr>LastScalingEvent = 0, NodeFailureCount = 0\<rparr>"
    by (simp add: betweenPasses_def)
  ultimately have "betweenPasses c' s'"
    using ticks_between by blast
  with pass_attempt [OF assms(2)] show ?thesis
    by (simp add: betweenPasses_def)
qed

text \<open>
  C3 states what the retry loop is written to keep, and the loop misses it where the
  counter steps over the threshold (the slip shown under C2): the scaling state is created
  once, in \<^verbatim>\<open>Start\<close>, no pass resets the counter when it begins, and a counter past the
  threshold is never reset again. With \<^verbatim>\<open>RetryThreshold\<close> 2 and a tick in which
  \<^verbatim>\<open>GetMostRecentInstance\<close> fails three times, the run leaves the counter at 3 with cluster
  scaling enabled. The pass of the next tick begins its retry loop with the counter at 3:
  it calls \<^verbatim>\<open>ScaleOutCluster\<close>, finds the loop condition false at once, makes no attempt
  although a healthy instance would be found, emits \<^verbatim>\<open>cluster.scale_out_success\<close> and
  leaves the counter at 3.
\<close>

theorem counter_carried_past_threshold:
  "Start (exampleConfig 2) [failingTick] =
     Inr (exampleConfig 2, \<lparr>LastScalingEvent = 0, NodeFailureCount = 3\<rparr>,
          [([LeaderCheck True, EvaluateClusterCapacity ScalingDirectionOut True None,
             NewAWSAsgService ''us-east-1'',
             ScaleOutCluster ''workers'' (AsgSession ''us-east-1'') None,
             GetMostRecentInstance ''workers'' ''us-east-1'' (Inl (Error ''throttled'')),
             GetMostRecentInstance ''workers'' ''us-east-1'' (Inl (Error ''throttled'')),
             GetMostRecentInstance ''workers'' ''us-east-1'' (Inl (Error ''throttled'')),
             Done, IncrCounter [''cluster'', ''scale_out_success''] 1],
            [LeaderCheck False])]) \<and>
   clusterScaling (scaleOutEnv allHealthy) (exampleConfig 2)
       \<lparr>LastScalingEvent = 0, NodeFailureCount = 3\<rparr> =
     (exampleConfig 2, \<lparr>LastScalingEvent = 0, NodeFailureCount = 3\<rparr>,
      [LeaderCheck True, EvaluateClusterCapacity ScalingDirectionOut True None,
       NewAWSAsgService ''us-east-1'',
       ScaleOutCluster ''workers'' (AsgSession ''us-east-1'') None,
       Done, IncrCounter [''cluster'', ''scale_out_success''] 1])"
  by code_simp

section \<open>Attempts until the self-disable\<close>

text \<open>
  C1, as the claim states it, fails: with \<^verbatim>\<open>RetryThreshold\<close> 2, a counter that starts at
  0 and attempts that all fail the health verification, the pass makes two attempts,
  not three, and the second one disables cluster scaling.
\<close>

theorem attempts_counterexample:
  "length (filter isIdentification
     (passCalls (clusterScaling (scaleOutEnv allUnhealthy) (exampleConfig 2) freshState))) = 2 \<and>
   length (filter isVerification
     (passCalls (clusterScaling (scaleOutEnv allUnhealthy) (exampleConfig 2) freshState))) = 2 \<and>
   \<not> ClusterScaling.Enabled (ClusterScaling
       (passConfig (clusterScaling (scaleOutEnv allUnhealthy) (exampleConfig 2) freshState))) \<and>
   int (length (filter isVerification
     (passCalls (clusterScaling (scaleOutEnv allUnhealthy) (exampleConfig 2) freshState)))) \<noteq>
     RetryThreshold (ClusterScaling (exampleConfig 2)) + 1"
  by code_simp

text \<open>
  C1, amended. Take a pass of the leader that reaches the retry loop (the capacity
  evaluation asks for a scale-out, the cooldown check lets it through, cluster scaling
  is enabled, \<^verbatim>\<open>ScaleOutCluster\<close> succeeds) with \<^verbatim>\<open>NodeFailureCount\<close> 0 and
  \<^verbatim>\<open>RetryThreshold\<close> at least 1, in which every attempt identifies an instance that
  fails the health verification. Then exactly \<^verbatim>\<open>RetryThreshold\<close> attempts are made
  (that many \<^verbatim>\<open>GetMostRecentInstance\<close> calls and that many \<^verbatim>\<open>VerifyNodeHealth\<close> calls); the
  last of them disables cluster scaling and detaches its instance, the ones before it
  terminate theirs, and the counter ends at \<^verbatim>\<open>RetryThreshold\<close>.
\<close>

theorem attempts_until_self_disable:
  assumes "leaderCheck env" and "capacityErr env = None" and "capacityScale env"
    and "\<not> coolingDown env c s"
    and "capacityDirection env = ScalingDirectionOut"
    and "ClusterScaling.Enabled (ClusterScaling c)"
    and "scaleOutCluster env = None"
    and "NodeFailureCount s = 0"
    and "1 \<le> RetryThreshold (ClusterScaling c)"
    and "\<forall>i. \<exists>node. getMostRecentInstance (attempts env i) = Inr node"
    and "\<forall>i. \<not> verifyNodeHealth (attempts env i)"
  shows "int (length (filter isIdentification (passCalls (clusterScaling env c s)))) =
           RetryThreshold (ClusterScaling c) \<and>
         int (length (filter isVerification (passCalls (clusterScaling env c s)))) =
           RetryThreshold (ClusterScaling c) \<and>
         int (length (filter isTerminate (passCalls (clusterScaling env c s)))) =
           RetryThreshold (ClusterScaling c) - 1 \<and>
         length (filter isDetach (passCalls (clusterScaling env c s))) = 1 \<and>
         \<not> ClusterScaling.Enabled (ClusterScaling (passConfig (clusterScaling env c s))) \<and>
         NodeFailureCount (passState (clusterScaling env c s)) = RetryThreshold (ClusterScaling c)"
proof -
  let ?c = "fst (resolveRegion env c)"
  let ?sess = "AsgSession (Region ?c)"
  have threshold: "RetryThreshold (ClusterScaling ?c) = RetryThreshold (ClusterScaling c)"
    by (simp add: resolveRegion_def split: sum.splits)
  have body: "clusterScalingBody env c s =
      emit (LeaderCheck True # snd (resolveRegion env c) @
            [EvaluateClusterCapacity ScalingDirectionOut True None,
             NewAWSAsgService (Region ?c),
             ScaleOutCluster (AutoscalingGroup (ClusterScaling ?c)) ?sess None])
        (retryLoop env ?sess 0 ?c s)"
    using assms(1-7) by (simp add: body_eq scaleOutBranch_def)
  have loop: "flowOf (retryLoop env ?sess 0 ?c s) = Returned \<and>
     configOf (retryLoop env ?sess 0 ?c s) = disabledConfig ?c \<and>
     NodeFailureCount (stateOf (retryLoop env ?sess 0 ?c s)) = RetryThreshold (ClusterScaling c) \<and>
     int (length (filter isIdentification (callsOf (retryLoop env ?sess 0 ?c s)))) =
       RetryThreshold (ClusterScaling c) \<and>
     int (length (filter isVerification (callsOf (retryLoop env ?sess 0 ?c s)))) =
       RetryThreshold (ClusterScaling c) \<and>
     int (length (filter isTerminate (callsOf (retryLoop env ?sess 0 ?c s)))) =
       RetryThreshold (ClusterScaling c) - 1 \<and>
     length (filter isDetach (callsOf (retryLoop env ?sess 0 ?c s))) = 1"
    using retryLoop_all_unhealthy [OF assms(10,11), of s ?c ?sess 0] assms(8,9)
    by (simp add: threshold)
  show ?thesis
    using loop by (simp add: clusterScaling_alt body disabledConfig_def)
qed

theorem attempts_until_self_disable_witness:
  "leaderCheck (scaleOutEnv allUnhealthy) \<and>
   \<not> coolingDown (scaleOutEnv allUnhealthy) (exampleConfig 3) freshState \<and>
   NodeFailureCount freshState = 0 \<and>
   1 \<le> RetryThreshold (ClusterScaling (exampleConfig 3)) \<and>
   RetryThreshold (ClusterScaling (exampleConfig 3)) = 3 \<and>
   int (length (filter isVerification
     (passCalls (clusterScaling (scaleOutEnv allUnhealthy) (exampleConfig 3) freshState)))) = 3 \<and>
   int (length (filter isTerminate
     (passCalls (clusterScaling (scaleOutEnv allUnhealthy) (exampleConfig 3) freshState)))) = 3 - 1 \<and>
   \<not> ClusterScaling.Enabled (ClusterScaling
       (passConfig (clusterScaling (scaleOutEnv allUnhealthy) (exampleConfig 3) freshState)))"
proof -
  have pass: "leaderCheck (scaleOutEnv allUnhealthy)"
    "capacityErr (scaleOutEnv allUnhealthy) = None"
    "capacityScale (scaleOutEnv allUnhealthy)"
    "\<not> coolingDown (scaleOutEnv allUnhealthy) (exampleConfig 3) freshState"
    "capacityDirection (scaleOutEnv allUnhealthy) = ScalingDirectionOut"
    "ClusterScaling.Enabled (ClusterScaling (exampleConfig 3))"
    "scaleOutCluster (scaleOutEnv allUnhealthy) = None"
    "NodeFailureCount freshState = 0"
    "1 \<le> RetryThreshold (ClusterScaling (exampleConfig 3))"
    by code_simp+
  have threshold: "RetryThreshold (ClusterScaling (exampleConfig 3)) = 3"
    by (simp add: exampleConfig_def)
  have identified:
    "\<forall>i. \<exists>node. getMostRecentInstance (attempts (scaleOutEnv allUnhealthy) i) = Inr node"
    by (simp add: scaleOutEnv_def allUnhealthy_def unhealthyAttempt_def)
  have unhealthy: "\<forall>i. \<not> verifyNodeHealth (attempts (scaleOutEnv allUnhealthy) i)"
    by (simp add: scaleOutEnv_def allUnhealthy_def unhealthyAttempt_def)
  show ?thesis
    using attempts_until_self_disable [OF pass identified unhealthy] pass threshold by simp
qed

section \<open>A threshold passed without the self-disable\<close>

text \<open>
  C2 describes what the comments of the retry loop announce (``if we've reached the
  retry threshold, disable cluster scaling and halt''), and the loop misses it. The
  check of \<^verbatim>\<open>disableClusterScaling\<close> is an equality, made only after a failed health
  verification; a failed identification raises the counter and goes on to the next
  iteration without the check. With \<^verbatim>\<open>RetryThreshold\<close> 1, a failed identification
  followed by an unhealthy instance takes the counter to 1 and then to 2: the threshold
  is reached and passed, cluster scaling stays enabled, the instance is terminated, the
  loop ends by its condition, and the pass goes on to emit
  \<^verbatim>\<open>cluster.scale_out_success\<close>.
\<close>

theorem threshold_passed_without_disable:
  "clusterScaling (scaleOutEnv unidentifiedThenUnhealthy) (exampleConfig 1) freshState =
     (exampleConfig 1, \<lparr>LastScalingEvent = 0, NodeFailureCount = 2\<rparr>,
      [LeaderCheck True, EvaluateClusterCapacity ScalingDirectionOut True None,
       NewAWSAsgService ''us-east-1'',
       ScaleOutCluster ''workers'' (AsgSession ''us-east-1'') None,
       GetMostRecentInstance ''workers'' ''us-east-1'' (Inl (Error ''throttled'')),
       GetMostRecentInstance ''workers'' ''us-east-1'' (Inr ''10.0.0.1''),
       VerifyNodeHealth ''10.0.0.1'' False,
       IncrCounter [''cluster'', ''scale_out_failed''] 1,
       TranslateIptoID ''10.0.0.1'' ''us-east-1'' ''i-0abc'',
       TerminateInstance ''i-0abc'' ''us-east-1'' None,
       Done, IncrCounter [''cluster'', ''scale_out_success''] 1])"
  by code_simp

section \<open>Job scaling\<close>

text \<open>
  C9. The \<^verbatim>\<open>JobScale\<close> calls of a job-scaling pass are, in the order of the evaluated
  policies, one call for each job that has a group with direction out or in while the
  job's flag and the global job-scaling flag are true, with the whole job as its
  argument; no other job is submitted, and a pass that is not the leader's or whose
  policies could not be fetched submits nothing.
\<close>

theorem job_scale_once_per_eligible_job:
  "filter isJobScale (snd (jobScaling env c)) =
     (if jobLeaderCheck env then
        (case getJobScalingPolicies env of
           Inl err \<Rightarrow> []
         | Inr resp \<Rightarrow> map JobScale (filter (eligibleJob c) (evaluateJobScaling env resp)))
      else [])"
  by (simp add: jobScaling_def jobsLoop_eq Let_def filter_map comp_def split: sum.splits)

theorem job_scale_once_per_eligible_job_witness:
  "jobLeaderCheck jobEnv \<and>
   getJobScalingPolicies jobEnv = Inr [webJob, batchJob, quietJob] \<and>
   eligibleJob (exampleConfig 2) webJob \<and>
   \<not> eligibleJob (exampleConfig 2) batchJob \<and>
   \<not> eligibleJob (exampleConfig 2) quietJob \<and>
   filter isJobScale (snd (jobScaling jobEnv (exampleConfig 2))) = [JobScale webJob]"
proof -
  have env: "jobLeaderCheck jobEnv" "getJobScalingPolicies jobEnv = Inr [webJob, batchJob, quietJob]"
    "evaluateJobScaling jobEnv [webJob, batchJob, quietJob] = [webJob, batchJob, quietJob]"
    by (simp_all add: jobEnv_def)
  have jobs: "eligibleJob (exampleConfig 2) webJob" "\<not> eligibleJob (exampleConfig 2) batchJob"
    "\<not> eligibleJob (exampleConfig 2) quietJob"
    by (simp_all add: eligibleJob_def needsScaling_def exampleConfig_def webJob_def batchJob_def
        quietJob_def)
  show ?thesis
    using job_scale_once_per_eligible_job [of jobEnv "exampleConfig 2"] env jobs by simp
qed

end
